theory Spec2Isabelle
  imports Complex_Main "HOL-Library.Word"
begin

section \<open>The engine behind the wrapper\<close>

text \<open>
  sqlitexx is a header-only wrapper: every operation is a call into the SQLite engine,
  which is not part of the sources. The engine is therefore a parameter of the model.
  A handle is a number, \<open>nullptr\<close> is 0. Every call the wrapper makes is appended to
  the history of calls (the \<open>world\<close>), and what the engine answers may depend on the whole
  history before the call: this covers every deterministic engine, whatever its state.
\<close>

type_synonym sqlite3 = nat
type_synonym sqlite3_stmt = nat

definition nullptr :: nat where
  "nullptr = 0"

text \<open>
  A value of the types \<open>double\<close> and \<open>float\<close> is a number, an infinity (\<open>True\<close> for the
  negative one) or a NaN. The last argument of the text binds is one of two constants
  of the engine.
\<close>

datatype fp = Finite real | Infinity bool | NaN

datatype text_dtor = SQLITE_STATIC | SQLITE_TRANSIENT

datatype call =
    Prepare_v2 sqlite3 string
  | Exec sqlite3 string
  | Step sqlite3_stmt
  | Reset sqlite3_stmt
  | Finalize sqlite3_stmt
  | Bind_parameter_index sqlite3_stmt string
  | Bind_int sqlite3_stmt int int
  | Bind_int64 sqlite3_stmt int int
  | Bind_double sqlite3_stmt int fp
  | Bind_null sqlite3_stmt int
  | Bind_text sqlite3_stmt int string int text_dtor
  | Bind_text16 sqlite3_stmt int "16 word list" int text_dtor
  | Column_double sqlite3_stmt int
  | Column_int sqlite3_stmt int
  | Column_int64 sqlite3_stmt int
  | Column_bytes sqlite3_stmt int
  | Column_text sqlite3_stmt int
  | Column_bytes16 sqlite3_stmt int
  | Column_text16 sqlite3_stmt int

type_synonym world = "call list"

text \<open>
  The answers of the engine: \<open>ret_int\<close> is the \<open>int\<close> a call returns (a status code, a
  parameter index, a byte count, a column value), \<open>ret_double\<close> the \<open>double\<close> a
  column gives, \<open>ret_text\<close> and \<open>ret_text16\<close> the
  buffer behind a returned character pointer (\<open>None\<close> for a null pointer; also the
  message \<open>sqlite3_exec\<close> stores through its last argument), \<open>ret_stmt\<close> the handle
  \<open>sqlite3_prepare_v2\<close> stores, and \<open>ret_row\<close> what a row view of a statement shows
  to its reader at this point of the history.
\<close>

record 'r engine =
  ret_int :: "world \<Rightarrow> call \<Rightarrow> int"
  ret_double :: "world \<Rightarrow> call \<Rightarrow> fp"
  ret_text :: "world \<Rightarrow> call \<Rightarrow> string option"
  ret_text16 :: "world \<Rightarrow> call \<Rightarrow> 16 word list option"
  ret_stmt :: "world \<Rightarrow> call \<Rightarrow> sqlite3_stmt"
  ret_row :: "world \<Rightarrow> sqlite3_stmt \<Rightarrow> 'r"

text \<open>
  Modelled from the spec: the header \<open>sqlite3.h\<close> is not among the sources; the status
  codes the spec calls success, "row produced" and "done" have the values that header
  gives them.
\<close>

definition SQLITE_OK :: int where
  "SQLITE_OK = 0"

definition SQLITE_ROW :: int where
  "SQLITE_ROW = 100"

definition SQLITE_DONE :: int where
  "SQLITE_DONE = 101"

definition sqlite3_step :: "'r engine \<Rightarrow> sqlite3_stmt \<Rightarrow> world \<Rightarrow> int \<times> world" where
  "sqlite3_step e p w = (ret_int e w (Step p), w @ [Step p])"

definition sqlite3_reset :: "'r engine \<Rightarrow> sqlite3_stmt \<Rightarrow> world \<Rightarrow> int \<times> world" where
  "sqlite3_reset e p w = (ret_int e w (Reset p), w @ [Reset p])"

definition sqlite3_finalize :: "'r engine \<Rightarrow> sqlite3_stmt \<Rightarrow> world \<Rightarrow> world" where
  "sqlite3_finalize e p w = w @ [Finalize p]"

definition sqlite3_exec ::
  "'r engine \<Rightarrow> sqlite3 \<Rightarrow> string \<Rightarrow> world \<Rightarrow> (int \<times> string option) \<times> world" where
  "sqlite3_exec e db query w =
     ((ret_int e w (Exec db query), ret_text e w (Exec db query)), w @ [Exec db query])"

definition sqlite3_prepare_v2 ::
  "'r engine \<Rightarrow> sqlite3 \<Rightarrow> string \<Rightarrow> world \<Rightarrow> (int \<times> sqlite3_stmt) \<times> world" where
  "sqlite3_prepare_v2 e db sql w =
     ((ret_int e w (Prepare_v2 db sql), ret_stmt e w (Prepare_v2 db sql)),
      w @ [Prepare_v2 db sql])"

definition sqlite3_bind_parameter_index ::
  "'r engine \<Rightarrow> sqlite3_stmt \<Rightarrow> string \<Rightarrow> world \<Rightarrow> int \<times> world" where
  "sqlite3_bind_parameter_index e p name w =
     (ret_int e w (Bind_parameter_index p name), w @ [Bind_parameter_index p name])"

definition sqlite3_bind_int ::
  "'r engine \<Rightarrow> sqlite3_stmt \<Rightarrow> int \<Rightarrow> int \<Rightarrow> world \<Rightarrow> int \<times> world" where
  "sqlite3_bind_int e p index v w = (ret_int e w (Bind_int p index v), w @ [Bind_int p index v])"

definition sqlite3_bind_int64 ::
  "'r engine \<Rightarrow> sqlite3_stmt \<Rightarrow> int \<Rightarrow> int \<Rightarrow> world \<Rightarrow> int \<times> world" where
  "sqlite3_bind_int64 e p index v w =
     (ret_int e w (Bind_int64 p index v), w @ [Bind_int64 p index v])"

definition sqlite3_bind_null :: "'r engine \<Rightarrow> sqlite3_stmt \<Rightarrow> int \<Rightarrow> world \<Rightarrow> int \<times> world" where
  "sqlite3_bind_null e p index w = (ret_int e w (Bind_null p index), w @ [Bind_null p index])"

definition sqlite3_bind_double ::
  "'r engine \<Rightarrow> sqlite3_stmt \<Rightarrow> int \<Rightarrow> fp \<Rightarrow> world \<Rightarrow> int \<times> world" where
  "sqlite3_bind_double e p index v w =
     (ret_int e w (Bind_double p index v), w @ [Bind_double p index v])"

text \<open>
  The text binds take the buffer the pointer points to, the number of bytes as an
  \<open>int\<close>, and the constant that says whether the engine copies the buffer.
\<close>

definition sqlite3_bind_text ::
  "'r engine \<Rightarrow> sqlite3_stmt \<Rightarrow> int \<Rightarrow> string \<Rightarrow> int \<Rightarrow> text_dtor \<Rightarrow> world \<Rightarrow>
     int \<times> world" where
  "sqlite3_bind_text e p index str n d w =
     (ret_int e w (Bind_text p index str n d), w @ [Bind_text p index str n d])"

definition sqlite3_bind_text16 ::
  "'r engine \<Rightarrow> sqlite3_stmt \<Rightarrow> int \<Rightarrow> 16 word list \<Rightarrow> int \<Rightarrow> text_dtor \<Rightarrow> world \<Rightarrow>
     int \<times> world" where
  "sqlite3_bind_text16 e p index str n d w =
     (ret_int e w (Bind_text16 p index str n d), w @ [Bind_text16 p index str n d])"

definition sqlite3_column_double ::
  "'r engine \<Rightarrow> sqlite3_stmt \<Rightarrow> int \<Rightarrow> world \<Rightarrow> fp \<times> world" where
  "sqlite3_column_double e p index w =
     (ret_double e w (Column_double p index), w @ [Column_double p index])"

definition sqlite3_column_int :: "'r engine \<Rightarrow> sqlite3_stmt \<Rightarrow> int \<Rightarrow> world \<Rightarrow> int \<times> world" where
  "sqlite3_column_int e p index w = (ret_int e w (Column_int p index), w @ [Column_int p index])"

definition sqlite3_column_int64 :: "'r engine \<Rightarrow> sqlite3_stmt \<Rightarrow> int \<Rightarrow> world \<Rightarrow> int \<times> world" where
  "sqlite3_column_int64 e p index w =
     (ret_int e w (Column_int64 p index), w @ [Column_int64 p index])"

definition sqlite3_column_bytes :: "'r engine \<Rightarrow> sqlite3_stmt \<Rightarrow> int \<Rightarrow> world \<Rightarrow> int \<times> world" where
  "sqlite3_column_bytes e p index w =
     (ret_int e w (Column_bytes p index), w @ [Column_bytes p index])"

definition sqlite3_column_bytes16 ::
  "'r engine \<Rightarrow> sqlite3_stmt \<Rightarrow> int \<Rightarrow> world \<Rightarrow> int \<times> world" where
  "sqlite3_column_bytes16 e p index w =
     (ret_int e w (Column_bytes16 p index), w @ [Column_bytes16 p index])"

definition sqlite3_column_text ::
  "'r engine \<Rightarrow> sqlite3_stmt \<Rightarrow> int \<Rightarrow> world \<Rightarrow> string option \<times> world" where
  "sqlite3_column_text e p index w =
     (ret_text e w (Column_text p index), w @ [Column_text p index])"

definition sqlite3_column_text16 ::
  "'r engine \<Rightarrow> sqlite3_stmt \<Rightarrow> int \<Rightarrow> world \<Rightarrow> 16 word list option \<times> world" where
  "sqlite3_column_text16 e p index w =
     (ret_text16 e w (Column_text16 p index), w @ [Column_text16 p index])"

section \<open>Errors (error.hpp)\<close>

text \<open>
  \<open>error(ec)\<close> carries a status code; \<open>execute_error(ec, msg)\<close> carries a status code
  and the \<open>error_string\<close>, whose pointer may be null (\<open>valid()\<close> is false then). A
  function that can throw returns \<open>Inl\<close> of the error, with the world as the engine
  calls made before the throw left it.
\<close>

datatype error =
    Error int
  | Execute_error int "string option"

definition valid :: "string option \<Rightarrow> bool" where
  "valid str = (str \<noteq> None)"

section \<open>Type traits (type_traits.hpp)\<close>

text \<open>
  \<open>is_integer\<close> holds of \<open>bool\<close>, \<open>short\<close>, \<open>int\<close>, \<open>long\<close> and \<open>long long\<close>. What
  \<open>sizeof\<close> gives for them is the platform's choice (\<open>long\<close> has 4 bytes on some and 8 on
  others), so \<open>sizeof\<close> is a parameter. A value of an integer type is the number it
  stands for (0 or 1 for \<open>bool\<close>); \<open>wrap_signed n\<close> is the conversion to a signed type of
  \<open>n\<close> bits, which keeps a value that fits and wraps around otherwise.
\<close>

datatype integer_type = T_bool | T_short | T_int | T_long | T_long_long

definition wrap_signed :: "nat \<Rightarrow> int \<Rightarrow> int" where
  "wrap_signed bits v = (v + 2 ^ (bits - 1)) mod 2 ^ bits - 2 ^ (bits - 1)"

text \<open>
  The values \<open>bind_traits\<close> is specialised for: \<open>double\<close> and \<open>float\<close> (which
  inherits the bind of \<open>double\<close>, its argument widened, which changes no value), the
  integer types, \<open>nullptr\<close>, arrays of \<open>char\<close> and of \<open>char16_t\<close> (all the \<open>N\<close>
  elements of the array), pointers to \<open>char\<close> and to \<open>char16_t\<close> (the characters before
  the terminating zero; the pointer is not null) and \<open>std::basic_string\<close> of either.
\<close>

datatype bind_value =
    Double fp
  | Float fp
  | Integer integer_type int
  | Nullptr
  | Char_array string
  | Char16_array "16 word list"
  | Char_pointer string
  | Char16_pointer "16 word list"
  | String string
  | U16string "16 word list"

text \<open>
  \<open>bind_traits<T>::bind\<close> for an integer type passes
  \<open>std::integral_constant<bool, (sizeof(T) < 8)>\<close> as the tag that picks the overload of
  \<open>do_integer_bind\<close>: \<open>sqlite3_bind_int\<close>, whose parameter is an \<open>int\<close> of 32 bits,
  for \<open>true_type\<close>, and \<open>sqlite3_bind_int64\<close> for \<open>false_type\<close>.
\<close>

definition do_integer_bind ::
  "'r engine \<Rightarrow> sqlite3_stmt \<Rightarrow> int \<Rightarrow> int \<Rightarrow> bool \<Rightarrow> world \<Rightarrow> int \<times> world" where
  "do_integer_bind e ptr index v tag w =
     (if tag then sqlite3_bind_int e ptr index (wrap_signed 32 v) w
      else sqlite3_bind_int64 e ptr index (wrap_signed 64 v) w)"

text \<open>
  The byte counts of the text binds are computed as \<open>size_t\<close> and passed to a
  parameter of type \<open>int\<close>: \<open>N * sizeof(char) - 1\<close> and \<open>N * sizeof(char16_t) - 1\<close>
  for an array of \<open>N\<close> elements, \<open>Traits::length(str)\<close> and
  \<open>Traits::length(str) * sizeof(char16_t)\<close> for a pointer, \<open>str.size()\<close> and
  \<open>str.size() * sizeof(char16_t)\<close> for a string. Arrays are bound with
  \<open>SQLITE_STATIC\<close>, the others with \<open>SQLITE_TRANSIENT\<close>.
\<close>

definition bind_traits_bind ::
  "(integer_type \<Rightarrow> nat) \<Rightarrow> 'r engine \<Rightarrow> sqlite3_stmt \<Rightarrow> int \<Rightarrow> bind_value \<Rightarrow> world \<Rightarrow>
     int \<times> world" where
  "bind_traits_bind sizeof e ptr index v w =
     (case v of
        Double x \<Rightarrow> sqlite3_bind_double e ptr index x w
      | Float x \<Rightarrow> sqlite3_bind_double e ptr index x w
      | Integer T x \<Rightarrow> do_integer_bind e ptr index x (sizeof T < 8) w
      | Nullptr \<Rightarrow> sqlite3_bind_null e ptr index w
      | Char_array str \<Rightarrow>
          sqlite3_bind_text e ptr index str (wrap_signed 32 (int (length str) * 1 - 1))
            SQLITE_STATIC w
      | Char16_array str \<Rightarrow>
          sqlite3_bind_text16 e ptr index str (wrap_signed 32 (int (length str) * 2 - 1))
            SQLITE_STATIC w
      | Char_pointer str \<Rightarrow>
          sqlite3_bind_text e ptr index str (wrap_signed 32 (int (length str)))
            SQLITE_TRANSIENT w
      | Char16_pointer str \<Rightarrow>
          sqlite3_bind_text16 e ptr index str (wrap_signed 32 (int (length str) * 2))
            SQLITE_TRANSIENT w
      | String str \<Rightarrow>
          sqlite3_bind_text e ptr index str (wrap_signed 32 (int (length str)))
            SQLITE_TRANSIENT w
      | U16string str \<Rightarrow>
          sqlite3_bind_text16 e ptr index str (wrap_signed 32 (int (length str) * 2))
            SQLITE_TRANSIENT w)"

text \<open>
  \<open>column_traits<T>::convert\<close> for an integer type: the same tag picks
  \<open>sqlite3_column_int\<close> or \<open>sqlite3_column_int64\<close>, and the \<open>return\<close> converts what
  the engine gave to \<open>T\<close> (to \<open>bool\<close>: whether it is not zero).
\<close>

definition to_integer :: "(integer_type \<Rightarrow> nat) \<Rightarrow> integer_type \<Rightarrow> int \<Rightarrow> int" where
  "to_integer sizeof T x =
     (if T = T_bool then (if x \<noteq> 0 then 1 else 0) else wrap_signed (8 * sizeof T) x)"

definition do_integer_convert ::
  "(integer_type \<Rightarrow> nat) \<Rightarrow> 'r engine \<Rightarrow> sqlite3_stmt \<Rightarrow> int \<Rightarrow> integer_type \<Rightarrow> bool \<Rightarrow> world \<Rightarrow>
     int \<times> world" where
  "do_integer_convert sizeof e ptr index T tag w =
     (if tag then (let (x, w') = sqlite3_column_int e ptr index w in (to_integer sizeof T x, w'))
      else (let (x, w') = sqlite3_column_int64 e ptr index w in (to_integer sizeof T x, w')))"

definition column_traits_integer_convert ::
  "(integer_type \<Rightarrow> nat) \<Rightarrow> 'r engine \<Rightarrow> sqlite3_stmt \<Rightarrow> int \<Rightarrow> integer_type \<Rightarrow> world \<Rightarrow>
     int \<times> world" where
  "column_traits_integer_convert sizeof e ptr index T w =
     do_integer_convert sizeof e ptr index T (sizeof T < 8) w"

text \<open>
  \<open>column_traits<T>::convert\<close> for a floating point type (\<open>std::is_floating_point\<close>:
  \<open>float\<close>, \<open>double\<close>, \<open>long double\<close>) returns what \<open>sqlite3_column_double\<close> gives,
  converted to \<open>T\<close>. For \<open>float\<close> that conversion rounds, in a way the platform
  chooses: it is the parameter \<open>to_float\<close>, and the values of type \<open>float\<close> are those
  it leaves as they are. The widening to \<open>long double\<close> changes no value.
\<close>

datatype floating_type = T_float | T_double | T_long_double

definition column_traits_floating_convert ::
  "(fp \<Rightarrow> fp) \<Rightarrow> 'r engine \<Rightarrow> sqlite3_stmt \<Rightarrow> int \<Rightarrow> floating_type \<Rightarrow> world \<Rightarrow> fp \<times> world" where
  "column_traits_floating_convert to_float e ptr index T w =
     (let (x, w') = sqlite3_column_double e ptr index w
      in ((case T of T_float \<Rightarrow> to_float x | T_double \<Rightarrow> x | T_long_double \<Rightarrow> x), w'))"

text \<open>
  \<open>column_traits<std::basic_string<...>>::convert\<close>. What can go wrong is made a value:
  \<open>reserve\<close> throws \<open>std::length_error\<close> when the \<open>int\<close> it is given is negative (as a
  \<open>size_type\<close> it is more than \<open>max_size()\<close>), and \<open>insert(0, s, n)\<close> reads \<open>n\<close>
  characters at \<open>s\<close>, which is no defined behaviour when \<open>s\<close> is null or the buffer is
  shorter and \<open>n\<close> is not zero. \<open>bytes / 2\<close> rounds towards zero.
\<close>

datatype fault = Length_error | Null_pointer_read | Read_past_the_end

definition insert_chars :: "'a list option \<Rightarrow> nat \<Rightarrow> fault + 'a list" where
  "insert_chars s n =
     (if n = 0 then Inr []
      else (case s of
              None \<Rightarrow> Inl Null_pointer_read
            | Some buf \<Rightarrow> if n \<le> length buf then Inr (take n buf) else Inl Read_past_the_end))"

definition truncated_div :: "int \<Rightarrow> int \<Rightarrow> int" where
  "truncated_div a b =
     (if (a < 0) = (b < 0) then \<bar>a\<bar> div \<bar>b\<bar> else - (\<bar>a\<bar> div \<bar>b\<bar>))"

definition column_traits_string_convert ::
  "'r engine \<Rightarrow> sqlite3_stmt \<Rightarrow> int \<Rightarrow> world \<Rightarrow> (fault + string) \<times> world" where
  "column_traits_string_convert e ptr index w =
     (let (bytes, w1) = sqlite3_column_bytes e ptr index w
      in if bytes \<noteq> 0 then
           (if bytes < 0 then (Inl Length_error, w1)
            else (let (text, w2) = sqlite3_column_text e ptr index w1
                  in (insert_chars text (nat bytes), w2)))
         else (Inr [], w1))"

definition column_traits_u16string_convert ::
  "'r engine \<Rightarrow> sqlite3_stmt \<Rightarrow> int \<Rightarrow> world \<Rightarrow> (fault + 16 word list) \<times> world" where
  "column_traits_u16string_convert e ptr index w =
     (let (bytes, w1) = sqlite3_column_bytes16 e ptr index w
      in if bytes \<noteq> 0 then
           (if truncated_div bytes 2 < 0 then (Inl Length_error, w1)
            else (let (text, w2) = sqlite3_column_text16 e ptr index w1
                  in (insert_chars text (nat (truncated_div bytes 2)), w2)))
         else (Inr [], w1))"

section \<open>Statements (statement.hpp)\<close>

text \<open>
  A \<open>statement\<close> holds one \<open>unique_ptr\<close> to the prepared handle; it is modelled by
  that pointer.
\<close>

definition statement_ctor ::
  "'r engine \<Rightarrow> sqlite3 \<Rightarrow> string \<Rightarrow> world \<Rightarrow> (error + sqlite3_stmt) \<times> world" where
  "statement_ctor e db sql w =
     (let ((ret, ptr), w') = sqlite3_prepare_v2 e db sql w
      in if ret \<noteq> SQLITE_OK then (Inl (Error ret), w') else (Inr ptr, w'))"

text \<open>The deleter of the \<open>unique_ptr\<close> runs on a pointer that is not null.\<close>

definition statement_dtor :: "'r engine \<Rightarrow> sqlite3_stmt \<Rightarrow> world \<Rightarrow> world" where
  "statement_dtor e p w = (if p \<noteq> nullptr then sqlite3_finalize e p w else w)"

definition statement_reset ::
  "'r engine \<Rightarrow> sqlite3_stmt \<Rightarrow> world \<Rightarrow> (error + unit) \<times> world" where
  "statement_reset e p w =
     (let (ret, w') = sqlite3_reset e p w
      in if ret \<noteq> SQLITE_OK then (Inl (Error ret), w') else (Inr (), w'))"

definition statement_execute ::
  "'r engine \<Rightarrow> sqlite3_stmt \<Rightarrow> world \<Rightarrow> (error + unit) \<times> world" where
  "statement_execute e p w =
     (let (ret, w') = sqlite3_step e p w
      in if ret \<noteq> SQLITE_DONE \<and> ret \<noteq> SQLITE_ROW then (Inl (Error ret), w')
         else statement_reset e p w')"

subsection \<open>Binding\<close>

text \<open>The two overloads of \<open>bind_to\<close>: by index, and by name.\<close>

definition bind_to ::
  "(integer_type \<Rightarrow> nat) \<Rightarrow> 'r engine \<Rightarrow> sqlite3_stmt \<Rightarrow> int \<Rightarrow> bind_value \<Rightarrow> world \<Rightarrow>
     (error + unit) \<times> world" where
  "bind_to sizeof e ptr index v w =
     (let (ret, w') = bind_traits_bind sizeof e ptr index v w
      in if ret \<noteq> SQLITE_OK then (Inl (Error ret), w') else (Inr (), w'))"

definition bind_to_name ::
  "(integer_type \<Rightarrow> nat) \<Rightarrow> 'r engine \<Rightarrow> sqlite3_stmt \<Rightarrow> string \<Rightarrow> bind_value \<Rightarrow> world \<Rightarrow>
     (error + unit) \<times> world" where
  "bind_to_name sizeof e ptr name v w =
     (let (index, w') = sqlite3_bind_parameter_index e ptr name w
      in if index = 0 then (Inr (), w') else bind_to sizeof e ptr index v w')"

text \<open>
  An argument of \<open>bind\<close> is a \<open>named_parameter\<close> or a plain value, and \<open>meta::and_\<close>
  over \<open>is_named_parameter\<close> of the argument types picks \<open>bind_impl\<close> (\<open>meta_and\<close>
  here: an Isabelle name cannot end with an underscore). Both expand the pack in a
  braced initialiser list, so in order from the left, and a throw ends the expansion.
  \<open>bind_parameters\<close> binds argument \<open>I\<close> at index \<open>I + 1\<close>.
\<close>

datatype argument = Named_parameter string bind_value | Value bind_value

fun is_named_parameter :: "argument \<Rightarrow> bool" where
  "is_named_parameter (Named_parameter name v) = True"
| "is_named_parameter (Value v) = False"

fun meta_and :: "bool list \<Rightarrow> bool" where
  "meta_and [] = True"
| "meta_and [t] = t"
| "meta_and (t # args) = (if t then meta_and args else t)"

fun bind_impl_true ::
  "(integer_type \<Rightarrow> nat) \<Rightarrow> 'r engine \<Rightarrow> sqlite3_stmt \<Rightarrow> (string \<times> bind_value) list \<Rightarrow> world \<Rightarrow>
     (error + unit) \<times> world" where
  "bind_impl_true sizeof e ptr [] w = (Inr (), w)"
| "bind_impl_true sizeof e ptr ((name, v) # args) w =
     (case bind_to_name sizeof e ptr name v w of
        (Inl err, w') \<Rightarrow> (Inl err, w')
      | (Inr u, w') \<Rightarrow> bind_impl_true sizeof e ptr args w')"

fun bind_parameters ::
  "(integer_type \<Rightarrow> nat) \<Rightarrow> 'r engine \<Rightarrow> sqlite3_stmt \<Rightarrow> nat \<Rightarrow> bind_value list \<Rightarrow> world \<Rightarrow>
     (error + unit) \<times> world" where
  "bind_parameters sizeof e ptr I [] w = (Inr (), w)"
| "bind_parameters sizeof e ptr I (arg # args) w =
     (case bind_to sizeof e ptr (int (I + 1)) arg w of
        (Inl err, w') \<Rightarrow> (Inl err, w')
      | (Inr u, w') \<Rightarrow> bind_parameters sizeof e ptr (I + 1) args w')"

text \<open>
  \<open>bind\<close>. A pack that mixes named parameters and plain values takes
  \<open>bind_impl(std::false_type, ...)\<close> and does not compile, since \<open>bind_traits\<close> has no
  specialisation for \<open>named_parameter\<close>: there is no such call, which is \<open>None\<close> here.
\<close>

definition statement_bind ::
  "(integer_type \<Rightarrow> nat) \<Rightarrow> 'r engine \<Rightarrow> sqlite3_stmt \<Rightarrow> argument list \<Rightarrow> world \<Rightarrow>
     ((error + unit) \<times> world) option" where
  "statement_bind sizeof e ptr args w =
     (if meta_and (map is_named_parameter args)
      then Some (bind_impl_true sizeof e ptr [(name, v). Named_parameter name v \<leftarrow> args] w)
      else if list_ex is_named_parameter args then None
      else Some (bind_parameters sizeof e ptr 0 [v. Value v \<leftarrow> args] w))"

definition statement_execute_args ::
  "(integer_type \<Rightarrow> nat) \<Rightarrow> 'r engine \<Rightarrow> sqlite3_stmt \<Rightarrow> argument list \<Rightarrow> world \<Rightarrow>
     ((error + unit) \<times> world) option" where
  "statement_execute_args sizeof e ptr args w =
     (case statement_bind sizeof e ptr args w of
        None \<Rightarrow> None
      | Some (Inl err, w') \<Rightarrow> Some (Inl err, w')
      | Some (Inr u, w') \<Rightarrow>
          Some (let (ret, w'') = sqlite3_step e ptr w'
                in if ret \<noteq> SQLITE_DONE \<and> ret \<noteq> SQLITE_ROW then (Inl (Error ret), w'')
                   else statement_reset e ptr w''))"

subsection \<open>Row iteration\<close>

text \<open>
  \<open>statement_iterator\<close> holds the \<open>column\<close> view (the statement pointer) and the
  result of the last step. Its constructor starts from \<open>SQLITE_OK\<close> and advances once;
  the end iterator holds \<open>SQLITE_DONE\<close>. Two iterators are equal when pointer and
  result are.
\<close>

record statement_iterator =
  current_column :: sqlite3_stmt
  ret :: int

definition advance ::
  "'r engine \<Rightarrow> statement_iterator \<Rightarrow> world \<Rightarrow> (error + unit) \<times> statement_iterator \<times> world" where
  "advance e it w =
     (if ret it \<noteq> SQLITE_DONE then
        (let (r, w') = sqlite3_step e (current_column it) w
         in if r \<noteq> SQLITE_ROW \<and> r \<noteq> SQLITE_DONE then (Inl (Error r), it\<lparr>ret := r\<rparr>, w')
            else (Inr (), it\<lparr>ret := r\<rparr>, w'))
      else (Inr (), it, w))"

definition statement_iterator_ctor ::
  "'r engine \<Rightarrow> sqlite3_stmt \<Rightarrow> world \<Rightarrow> (error + statement_iterator) \<times> world" where
  "statement_iterator_ctor e ptr w =
     (case advance e \<lparr>current_column = ptr, ret = SQLITE_OK\<rparr> w of
        (Inl err, it, w') \<Rightarrow> (Inl err, w')
      | (Inr u, it, w') \<Rightarrow> (Inr it, w'))"

definition statement_iterator_end :: "sqlite3_stmt \<Rightarrow> statement_iterator" where
  "statement_iterator_end ptr = \<lparr>current_column = ptr, ret = SQLITE_DONE\<rparr>"

definition iterator_eq :: "statement_iterator \<Rightarrow> statement_iterator \<Rightarrow> bool" where
  "iterator_eq a b = (current_column a = current_column b \<and> ret a = ret b)"

definition iterator_neq :: "statement_iterator \<Rightarrow> statement_iterator \<Rightarrow> bool" where
  "iterator_neq a b = (\<not> iterator_eq a b)"

text \<open>\<open>statement_range\<close>, which \<open>fetch()\<close> returns: \<open>begin()\<close> resets, then builds the iterator.\<close>

definition statement_range_reset ::
  "'r engine \<Rightarrow> sqlite3_stmt \<Rightarrow> world \<Rightarrow> (error + unit) \<times> world" where
  "statement_range_reset e ptr w =
     (let (ret, w') = sqlite3_reset e ptr w
      in if ret \<noteq> SQLITE_OK then (Inl (Error ret), w') else (Inr (), w'))"

definition statement_range_begin ::
  "'r engine \<Rightarrow> sqlite3_stmt \<Rightarrow> world \<Rightarrow> (error + statement_iterator) \<times> world" where
  "statement_range_begin e ptr w =
     (case statement_range_reset e ptr w of
        (Inl err, w') \<Rightarrow> (Inl err, w')
      | (Inr u, w') \<Rightarrow> statement_iterator_ctor e ptr w')"

definition statement_range_end :: "sqlite3_stmt \<Rightarrow> statement_iterator" where
  "statement_range_end ptr = statement_iterator_end ptr"

text \<open>
  Consuming the range, as \<open>for (auto&& row : stmt.fetch())\<close> does: while the iterator
  differs from the end iterator, the body reads the row the view shows and the iterator
  advances. The rows read are collected. The loop has no bound of its own, so it is a
  partial function: \<open>None\<close> is a loop that never ends.
\<close>

partial_function (option) for_loop ::
  "'r engine \<Rightarrow> statement_iterator \<Rightarrow> statement_iterator \<Rightarrow> 'r list \<Rightarrow> world \<Rightarrow>
     ((error + unit) \<times> 'r list \<times> world) option" where
  "for_loop e it sentinel rows w =
     (if iterator_neq it sentinel then
        (let rows' = rows @ [ret_row e w (current_column it)]
         in case advance e it w of
              (Inl err, it', w') \<Rightarrow> Some (Inl err, rows', w')
            | (Inr u, it', w') \<Rightarrow> for_loop e it' sentinel rows' w')
      else Some (Inr (), rows, w))"

definition for_each ::
  "'r engine \<Rightarrow> sqlite3_stmt \<Rightarrow> world \<Rightarrow> ((error + unit) \<times> 'r list \<times> world) option" where
  "for_each e ptr w =
     (case statement_range_begin e ptr w of
        (Inl err, w') \<Rightarrow> Some (Inl err, [], w')
      | (Inr first, w') \<Rightarrow> for_loop e first (statement_range_end ptr) [] w')"

section \<open>Connections and transaction guards\<close>

definition connection_execute ::
  "'r engine \<Rightarrow> sqlite3 \<Rightarrow> string \<Rightarrow> world \<Rightarrow> (error + unit) \<times> world" where
  "connection_execute e db query w =
     (let ((ret, error_msg), w') = sqlite3_exec e db query w
      in if ret \<noteq> SQLITE_OK \<or> valid error_msg
         then (Inl (Execute_error ret error_msg), w')
         else (Inr (), w'))"

definition connection_prepare ::
  "'r engine \<Rightarrow> sqlite3 \<Rightarrow> string \<Rightarrow> world \<Rightarrow> (error + sqlite3_stmt) \<times> world" where
  "connection_prepare e db sql w = statement_ctor e db sql w"

text \<open>
  The guard: the members \<open>_commit\<close> and \<open>_rollback\<close> (Isabelle names cannot start with
  an underscore) and the flag \<open>needs_rollback\<close>, true by its default member initialiser.
\<close>

record transaction =
  commit_stmt :: sqlite3_stmt
  rollback_stmt :: sqlite3_stmt
  needs_rollback :: bool

text \<open>
  The constructor prepares COMMIT, then ROLLBACK, then executes BEGIN. When a later
  step throws, the members already constructed are destroyed, in reverse order, and no
  guard exists.
\<close>

definition transaction_ctor ::
  "'r engine \<Rightarrow> sqlite3 \<Rightarrow> world \<Rightarrow> (error + transaction) \<times> world" where
  "transaction_ctor e db w =
     (case connection_prepare e db ''COMMIT;'' w of
        (Inl err, w1) \<Rightarrow> (Inl err, w1)
      | (Inr c, w1) \<Rightarrow>
          (case connection_prepare e db ''ROLLBACK;'' w1 of
             (Inl err, w2) \<Rightarrow> (Inl err, statement_dtor e c w2)
           | (Inr r, w2) \<Rightarrow>
               (case connection_execute e db ''BEGIN TRANSACTION;'' w2 of
                  (Inl err, w3) \<Rightarrow> (Inl err, statement_dtor e c (statement_dtor e r w3))
                | (Inr u, w3) \<Rightarrow>
                    (Inr \<lparr>commit_stmt = c, rollback_stmt = r, needs_rollback = True\<rparr>, w3))))"

definition transaction_commit ::
  "'r engine \<Rightarrow> transaction \<Rightarrow> world \<Rightarrow> (error + unit) \<times> transaction \<times> world" where
  "transaction_commit e t w =
     (if needs_rollback t then
        (case statement_execute e (commit_stmt t) w of
           (Inl err, w') \<Rightarrow> (Inl err, t, w')
         | (Inr u, w') \<Rightarrow> (Inr (), t\<lparr>needs_rollback := False\<rparr>, w'))
      else (Inr (), t, w))"

definition transaction_rollback ::
  "'r engine \<Rightarrow> transaction \<Rightarrow> world \<Rightarrow> (error + unit) \<times> transaction \<times> world" where
  "transaction_rollback e t w =
     (if needs_rollback t then
        (case statement_execute e (rollback_stmt t) w of
           (Inl err, w') \<Rightarrow> (Inl err, t, w')
         | (Inr u, w') \<Rightarrow> (Inr (), t\<lparr>needs_rollback := False\<rparr>, w'))
      else (Inr (), t, w))"

text \<open>The body of the destructor \<open>~transaction() noexcept(false)\<close>.\<close>

definition transaction_dtor ::
  "'r engine \<Rightarrow> transaction \<Rightarrow> world \<Rightarrow> (error + unit) \<times> transaction \<times> world" where
  "transaction_dtor e t w =
     (if needs_rollback t then transaction_rollback e t w else (Inr (), t, w))"

text \<open>
  Destruction as a whole: the body, then the members in reverse order of declaration
  (\<open>_rollback\<close>, then \<open>_commit\<close>), also when the body has thrown.
\<close>

definition transaction_destroy ::
  "'r engine \<Rightarrow> transaction \<Rightarrow> world \<Rightarrow> (error + unit) \<times> world" where
  "transaction_destroy e t w =
     (case transaction_dtor e t w of
        (r, t', w') \<Rightarrow>
          (r, statement_dtor e (commit_stmt t') (statement_dtor e (rollback_stmt t') w')))"

text \<open>
  The move constructor builds the new guard from \<open>o\<close> and leaves \<open>o\<close> with null
  pointers and a cleared flag. It returns the new guard and what is left of \<open>o\<close>.
\<close>

definition transaction_move_ctor :: "transaction \<Rightarrow> transaction \<times> transaction" where
  "transaction_move_ctor o' =
     (\<lparr>commit_stmt = commit_stmt o', rollback_stmt = rollback_stmt o',
       needs_rollback = needs_rollback o'\<rparr>,
      \<lparr>commit_stmt = nullptr, rollback_stmt = nullptr, needs_rollback = False\<rparr>)"

text \<open>
  Move assignment works on two objects that may be one and the same (\<open>t = std::move(t)\<close>),
  so the guards live in a store, by address, and the assignment is given the addresses
  of the target \<open>this\<close> and of the source \<open>o\<close>. The statements are assigned as the code
  writes them, one member at a time: the flag is copied first; then for \<open>_commit\<close>, and
  after it for \<open>_rollback\<close>, the move assignment of \<open>unique_ptr\<close> is
  \<open>reset(o.release())\<close>, which takes the pointer out of the source and leaves it null
  there, stores it in the target, and runs the deleter on the pointer the target held
  before when that is not null; last the flag of the source is cleared.
\<close>

type_synonym store = "nat \<Rightarrow> transaction"

definition transaction_move_assign ::
  "'r engine \<Rightarrow> nat \<Rightarrow> nat \<Rightarrow> store \<Rightarrow> world \<Rightarrow> store \<times> world" where
  "transaction_move_assign e this o' s w =
     (let s1 = s(this := (s this)\<lparr>needs_rollback := needs_rollback (s o')\<rparr>);
          p = commit_stmt (s1 o');
          s2 = s1(o' := (s1 o')\<lparr>commit_stmt := nullptr\<rparr>);
          old_p = commit_stmt (s2 this);
          s3 = s2(this := (s2 this)\<lparr>commit_stmt := p\<rparr>);
          w1 = (if old_p \<noteq> nullptr then sqlite3_finalize e old_p w else w);
          q = rollback_stmt (s3 o');
          s4 = s3(o' := (s3 o')\<lparr>rollback_stmt := nullptr\<rparr>);
          old_q = rollback_stmt (s4 this);
          s5 = s4(this := (s4 this)\<lparr>rollback_stmt := q\<rparr>);
          w2 = (if old_q \<noteq> nullptr then sqlite3_finalize e old_q w1 else w1);
          s6 = s5(o' := (s5 o')\<lparr>needs_rollback := False\<rparr>)
      in (s6, w2))"

section \<open>Clients and engines used to state and test the properties\<close>

text \<open>
  A client of a guard calls \<open>commit()\<close> and \<open>rollback()\<close> in any order, catches what
  they throw and goes on, and at last lets the guard go out of scope. The log keeps,
  for each call and for the destructor, how it ended and which engine calls it made.
\<close>

datatype guard_op = Commit | Rollback

definition transaction_apply ::
  "'r engine \<Rightarrow> guard_op \<Rightarrow> transaction \<Rightarrow> world \<Rightarrow> (error + unit) \<times> transaction \<times> world" where
  "transaction_apply e op t w =
     (case op of Commit \<Rightarrow> transaction_commit e t w | Rollback \<Rightarrow> transaction_rollback e t w)"

type_synonym log = "((error + unit) \<times> call list) list"

fun run_ops ::
  "'r engine \<Rightarrow> guard_op list \<Rightarrow> transaction \<Rightarrow> world \<Rightarrow> log \<times> transaction \<times> world" where
  "run_ops e [] t w = ([], t, w)"
| "run_ops e (op # ops) t w =
     (case transaction_apply e op t w of
        (r, t', w') \<Rightarrow>
          (case run_ops e ops t' w' of
             (entries, t'', w'') \<Rightarrow> ((r, drop (length w) w') # entries, t'', w'')))"

definition lifetime ::
  "'r engine \<Rightarrow> guard_op list \<Rightarrow> transaction \<Rightarrow> world \<Rightarrow> log \<times> transaction \<times> world" where
  "lifetime e ops t w =
     (case run_ops e ops t w of
        (entries, t', w') \<Rightarrow>
          (case transaction_dtor e t' w' of
             (r, t'', w'') \<Rightarrow> (entries @ [(r, drop (length w') w'')], t'', w'')))"



text \<open>How many guards of a list still have a commit or rollback to do.\<close>

definition active :: "transaction list \<Rightarrow> nat" where
  "active ts = length (filter needs_rollback ts)"

text \<open>An engine given by its integer answers alone; it returns no text and no handle.\<close>

definition scripted :: "(world \<Rightarrow> call \<Rightarrow> int) \<Rightarrow> unit engine" where
  "scripted f = \<lparr>ret_int = f, ret_double = (\<lambda>w c. Finite 0), ret_text = (\<lambda>w c. None),
     ret_text16 = (\<lambda>w c. None), ret_stmt = (\<lambda>w c. nullptr), ret_row = (\<lambda>w p. ())\<rparr>"

text \<open>
  An engine that answers the step of statement 1 with SQLITE_BUSY (5), as a COMMIT can be
  answered while another connection holds a lock, and the step of statement 2 with
  "done"; every other call succeeds.
\<close>

definition busy_commit :: "unit engine" where
  "busy_commit =
     scripted (\<lambda>w c. if c = Step 1 then 5 else if c = Step 2 then SQLITE_DONE else SQLITE_OK)"

definition guard12 :: transaction where
  "guard12 = \<lparr>commit_stmt = 1, rollback_stmt = 2, needs_rollback = True\<rparr>"

text \<open>What a move leaves of a source that is another object than the target.\<close>

definition moved_from :: transaction where
  "moved_from = \<lparr>commit_stmt = nullptr, rollback_stmt = nullptr, needs_rollback = False\<rparr>"

text \<open>The engine call that binds a value at an index.\<close>

definition bind_call :: "(integer_type \<Rightarrow> nat) \<Rightarrow> sqlite3_stmt \<Rightarrow> int \<Rightarrow> bind_value \<Rightarrow> call" where
  "bind_call sizeof p index v =
     (case v of
        Double x \<Rightarrow> Bind_double p index x
      | Float x \<Rightarrow> Bind_double p index x
      | Integer T x \<Rightarrow>
          if sizeof T < 8 then Bind_int p index (wrap_signed 32 x)
          else Bind_int64 p index (wrap_signed 64 x)
      | Nullptr \<Rightarrow> Bind_null p index
      | Char_array str \<Rightarrow>
          Bind_text p index str (wrap_signed 32 (int (length str) - 1)) SQLITE_STATIC
      | Char16_array str \<Rightarrow>
          Bind_text16 p index str (wrap_signed 32 (2 * int (length str) - 1)) SQLITE_STATIC
      | Char_pointer str \<Rightarrow>
          Bind_text p index str (wrap_signed 32 (int (length str))) SQLITE_TRANSIENT
      | Char16_pointer str \<Rightarrow>
          Bind_text16 p index str (wrap_signed 32 (2 * int (length str))) SQLITE_TRANSIENT
      | String str \<Rightarrow>
          Bind_text p index str (wrap_signed 32 (int (length str))) SQLITE_TRANSIENT
      | U16string str \<Rightarrow>
          Bind_text16 p index str (wrap_signed 32 (2 * int (length str))) SQLITE_TRANSIENT)"

text \<open>
  What the engine answers to step number \<open>j\<close> (from 0) of statement \<open>p\<close> after a reset
  made at history \<open>w\<close> and followed by steps of \<open>p\<close> only, and the row the view shows
  after that step.
\<close>

definition step_answer :: "'r engine \<Rightarrow> sqlite3_stmt \<Rightarrow> world \<Rightarrow> nat \<Rightarrow> int" where
  "step_answer e p w j = ret_int e (w @ Reset p # replicate j (Step p)) (Step p)"

definition row_shown :: "'r engine \<Rightarrow> sqlite3_stmt \<Rightarrow> world \<Rightarrow> nat \<Rightarrow> 'r" where
  "row_shown e p w j = ret_row e (w @ Reset p # replicate (Suc j) (Step p)) p"

text \<open>
  What the spec expects of the engine's reset ("returns the statement to its
  post-prepare, unstepped state"), said of two histories: a reset made at either is
  answered alike, and so are the steps that follow it, with the same rows shown.
\<close>

definition restarts_alike :: "'r engine \<Rightarrow> sqlite3_stmt \<Rightarrow> world \<Rightarrow> world \<Rightarrow> bool" where
  "restarts_alike e p w w' =
     (ret_int e w (Reset p) = ret_int e w' (Reset p) \<and>
      (\<forall>j. step_answer e p w j = step_answer e p w' j \<and> row_shown e p w j = row_shown e p w' j))"

text \<open>
  The values an integer type of the platform can hold: 0 and 1 for \<open>bool\<close>, the
  two's complement range of its size otherwise.
\<close>

definition representable :: "(integer_type \<Rightarrow> nat) \<Rightarrow> integer_type \<Rightarrow> int \<Rightarrow> bool" where
  "representable sizeof T v =
     (if T = T_bool then v = 0 \<or> v = 1
      else - (2 ^ (8 * sizeof T - 1)) \<le> v \<and> v < 2 ^ (8 * sizeof T - 1))"

text \<open>
  A platform whose integer types have a supported width: at most the 4 bytes of the
  \<open>int\<close> of the 32-bit calls, or the 8 bytes of the 64-bit calls.
\<close>

definition supported_widths :: "(integer_type \<Rightarrow> nat) \<Rightarrow> bool" where
  "supported_widths sizeof = (\<forall>T. 0 < sizeof T \<and> (sizeof T \<le> 4 \<or> sizeof T = 8))"

text \<open>
  The scalar types and their values: a floating point type with a value, or an integer
  type with a value. \<open>has_type\<close> says that the value is one of its type on the
  platform: a \<open>float\<close> is a value that the conversion to \<open>float\<close> leaves as it is,
  every value of the model is a \<open>double\<close> and a \<open>long double\<close>. \<open>bind_value_of\<close> is
  the value as an argument of \<open>bind\<close>; there is none for \<open>long double\<close>, which has a
  specialisation of \<open>column_traits\<close> and none of \<open>bind_traits\<close>.
\<close>

datatype scalar_type = Floating floating_type | Integral integer_type

datatype scalar = F_value floating_type fp | I_value integer_type int

fun type_of :: "scalar \<Rightarrow> scalar_type" where
  "type_of (F_value T x) = Floating T"
| "type_of (I_value T x) = Integral T"

fun bind_value_of :: "scalar \<Rightarrow> bind_value option" where
  "bind_value_of (F_value T_double x) = Some (Double x)"
| "bind_value_of (F_value T_float x) = Some (Float x)"
| "bind_value_of (F_value T_long_double x) = None"
| "bind_value_of (I_value T x) = Some (Integer T x)"

fun has_type :: "(integer_type \<Rightarrow> nat) \<Rightarrow> (fp \<Rightarrow> fp) \<Rightarrow> scalar \<Rightarrow> bool" where
  "has_type sizeof to_float (F_value T_float x) = (to_float x = x)"
| "has_type sizeof to_float (F_value T_double x) = True"
| "has_type sizeof to_float (F_value T_long_double x) = True"
| "has_type sizeof to_float (I_value T x) = representable sizeof T x"

fun is_nan :: "scalar \<Rightarrow> bool" where
  "is_nan (F_value T x) = (x = NaN)"
| "is_nan (I_value T x) = False"

text \<open>
  \<open>column<Args...>::get<N>()\<close> where the \<open>N\<close>-th type of \<open>Args\<close> is the scalar type
  \<open>T\<close>: it is \<open>column_traits<T>::convert(ptr, N)\<close>. \<open>column_call\<close> is the engine call
  it makes.
\<close>

definition column_get ::
  "(integer_type \<Rightarrow> nat) \<Rightarrow> (fp \<Rightarrow> fp) \<Rightarrow> 'r engine \<Rightarrow> sqlite3_stmt \<Rightarrow> int \<Rightarrow> scalar_type \<Rightarrow>
     world \<Rightarrow> scalar \<times> world" where
  "column_get sizeof to_float e ptr N T w =
     (case T of
        Floating F \<Rightarrow>
          (let (x, w') = column_traits_floating_convert to_float e ptr N F w
           in (F_value F x, w'))
      | Integral I \<Rightarrow>
          (let (x, w') = column_traits_integer_convert sizeof e ptr N I w
           in (I_value I x, w')))"

definition column_call :: "(integer_type \<Rightarrow> nat) \<Rightarrow> sqlite3_stmt \<Rightarrow> int \<Rightarrow> scalar_type \<Rightarrow> call" where
  "column_call sizeof p N T =
     (case T of
        Floating F \<Rightarrow> Column_double p N
      | Integral I \<Rightarrow> if sizeof I < 8 then Column_int p N else Column_int64 p N)"

text \<open>
  A round trip: a client binds a scalar value at an index of a statement, begins to
  iterate over what \<open>fetch()\<close> returns, and reads a column of the first row as the type
  of the value. There is nothing to read (\<open>Inr None\<close>) when there is no row, and there
  is no such client (\<open>None\<close>) for a value that cannot be bound.
\<close>

definition round_trip ::
  "(integer_type \<Rightarrow> nat) \<Rightarrow> (fp \<Rightarrow> fp) \<Rightarrow> 'r engine \<Rightarrow> sqlite3_stmt \<Rightarrow> int \<Rightarrow> int \<Rightarrow> scalar \<Rightarrow>
     world \<Rightarrow> ((error + scalar option) \<times> world) option" where
  "round_trip sizeof to_float e p index col v w =
     (case bind_value_of v of
        None \<Rightarrow> None
      | Some b \<Rightarrow>
          Some (case bind_to sizeof e p index b w of
                  (Inl err, w1) \<Rightarrow> (Inl err, w1)
                | (Inr u, w1) \<Rightarrow>
                    (case statement_range_begin e p w1 of
                       (Inl err, w2) \<Rightarrow> (Inl err, w2)
                     | (Inr it, w2) \<Rightarrow>
                         if iterator_neq it (statement_range_end p)
                         then (let (y, w3) = column_get sizeof to_float e p col (type_of v) w2
                               in (Inr (Some y), w3))
                         else (Inr None, w2))))"

text \<open>
  A round-trip statement: at this point of the history the engine accepts a bind of a
  number at the index, the reset and the step that follow succeed and give a row, and
  the column of that row gives back the number the bind call was given, through the
  call of the same kind (32-bit, 64-bit, double). Of a NaN nothing is asked.
\<close>

definition accepted :: "'r engine \<Rightarrow> sqlite3_stmt \<Rightarrow> world \<Rightarrow> call \<Rightarrow> bool" where
  "accepted e p w b =
     (ret_int e w b = SQLITE_OK \<and> ret_int e (w @ [b]) (Reset p) = SQLITE_OK \<and>
      ret_int e (w @ [b, Reset p]) (Step p) = SQLITE_ROW)"

definition gives_back :: "'r engine \<Rightarrow> sqlite3_stmt \<Rightarrow> int \<Rightarrow> int \<Rightarrow> world \<Rightarrow> bool" where
  "gives_back e p i c w =
     ((\<forall>x. wrap_signed 32 x = x \<longrightarrow>
          accepted e p w (Bind_int p i x) \<and>
          ret_int e (w @ [Bind_int p i x, Reset p, Step p]) (Column_int p c) = x) \<and>
      (\<forall>x. wrap_signed 64 x = x \<longrightarrow>
          accepted e p w (Bind_int64 p i x) \<and>
          ret_int e (w @ [Bind_int64 p i x, Reset p, Step p]) (Column_int64 p c) = x) \<and>
      (\<forall>x. x \<noteq> NaN \<longrightarrow>
          accepted e p w (Bind_double p i x) \<and>
          ret_double e (w @ [Bind_double p i x, Reset p, Step p]) (Column_double p c) = x))"

text \<open>
  An engine for the statement \<open>SELECT ?\<close>: its column gives the number bound last. As
  SQLite does, it keeps a NaN as NULL, and a NULL read as a double is 0.0; an integer
  read through the 32-bit call is cut to 32 bits.
\<close>

definition bound_int :: "world \<Rightarrow> int" where
  "bound_int w =
     foldl (\<lambda>a c. case c of Bind_int p i x \<Rightarrow> x | Bind_int64 p i x \<Rightarrow> x | _ \<Rightarrow> a) 0 w"

definition bound_double :: "world \<Rightarrow> fp" where
  "bound_double w =
     foldl (\<lambda>a c. case c of Bind_double p i x \<Rightarrow> (if x = NaN then Finite 0 else x) | _ \<Rightarrow> a)
       (Finite 0) w"

definition select_parameter :: "unit engine" where
  "select_parameter =
     \<lparr>ret_int = (\<lambda>w c. case c of
          Step p \<Rightarrow> SQLITE_ROW
        | Column_int p i \<Rightarrow> wrap_signed 32 (bound_int w)
        | Column_int64 p i \<Rightarrow> bound_int w
        | _ \<Rightarrow> SQLITE_OK),
      ret_double = (\<lambda>w c. bound_double w),
      ret_text = (\<lambda>w c. None), ret_text16 = (\<lambda>w c. None), ret_stmt = (\<lambda>w c. nullptr),
      ret_row = (\<lambda>w p. ())\<rparr>"

text \<open>The sizes of the integer types where \<open>long\<close> has 8 bytes.\<close>

definition lp64 :: "integer_type \<Rightarrow> nat" where
  "lp64 T = (case T of T_bool \<Rightarrow> 1 | T_short \<Rightarrow> 2 | T_int \<Rightarrow> 4 | T_long \<Rightarrow> 8 | T_long_long \<Rightarrow> 8)"

text \<open>
  An engine whose every step gives a row and whose reset then fails with SQLITE_BUSY (5),
  as the engine's documentation describes for an INSERT with a RETURNING clause that is
  stepped once.
\<close>

definition returning_busy :: "unit engine" where
  "returning_busy =
     scripted (\<lambda>w c. case c of Step p \<Rightarrow> SQLITE_ROW | Reset p \<Rightarrow> 5 | _ \<Rightarrow> SQLITE_OK)"

text \<open>
  An engine for statements with the one parameter \<open>:a\<close>, at index 1: binding at any
  other index is refused with SQLITE_RANGE (25).
\<close>

definition one_parameter :: "unit engine" where
  "one_parameter = scripted (\<lambda>w c. case c of
      Step p \<Rightarrow> SQLITE_DONE
    | Bind_parameter_index p name \<Rightarrow> (if name = '':a'' then 1 else 0)
    | Bind_int p index v \<Rightarrow> (if index = 1 then SQLITE_OK else 25)
    | Bind_int64 p index v \<Rightarrow> (if index = 1 then SQLITE_OK else 25)
    | Bind_double p index v \<Rightarrow> (if index = 1 then SQLITE_OK else 25)
    | Bind_null p index \<Rightarrow> (if index = 1 then SQLITE_OK else 25)
    | Bind_text p index str n d \<Rightarrow> (if index = 1 then SQLITE_OK else 25)
    | Bind_text16 p index str n d \<Rightarrow> (if index = 1 then SQLITE_OK else 25)
    | _ \<Rightarrow> SQLITE_OK)"

text \<open>An engine that reports success and still leaves a message.\<close>

definition chatty_exec :: "unit engine" where
  "chatty_exec = (scripted (\<lambda>w c. SQLITE_OK))\<lparr>ret_text := (\<lambda>w c. Some ''not an error'')\<rparr>"

text \<open>
  An engine whose columns are empty (0 bytes, null text pointers), and one whose
  columns hold two bytes.
\<close>

definition empty_text :: "unit engine" where
  "empty_text = scripted (\<lambda>w c. 0)"

definition two_bytes :: "unit engine" where
  "two_bytes = (scripted (\<lambda>w c. 2))\<lparr>ret_text := (\<lambda>w c. Some ''hi''),
     ret_text16 := (\<lambda>w c. Some [104])\<rparr>"

text \<open>
  An engine that runs every statement over one table of rows: \<open>cursor\<close> counts the
  steps of a statement since its last reset, a step gives the next row while there is
  one and "done" after the last.
\<close>

definition cursor :: "sqlite3_stmt \<Rightarrow> world \<Rightarrow> nat" where
  "cursor p w = foldl (\<lambda>n c. if c = Reset p then 0 else if c = Step p then n + 1 else n) 0 w"

text \<open>
  An engine for a statement whose every name resolves to parameter 1 and whose steps
  give rows, and which refuses a bind with SQLITE_MISUSE (21) while the statement has
  been stepped and not reset since.
\<close>

definition in_use :: "unit engine" where
  "in_use = scripted (\<lambda>w c. case c of
      Step p \<Rightarrow> SQLITE_ROW
    | Bind_parameter_index p name \<Rightarrow> 1
    | Bind_int p index v \<Rightarrow> (if 0 < cursor p w then 21 else SQLITE_OK)
    | _ \<Rightarrow> SQLITE_OK)"

definition table :: "'r list \<Rightarrow> 'r option engine" where
  "table rows =
     \<lparr>ret_int = (\<lambda>w c. case c of
          Step p \<Rightarrow> if cursor p w < length rows then SQLITE_ROW else SQLITE_DONE
        | _ \<Rightarrow> SQLITE_OK),
      ret_double = (\<lambda>w c. Finite 0),
      ret_text = (\<lambda>w c. None), ret_text16 = (\<lambda>w c. None), ret_stmt = (\<lambda>w c. nullptr),
      ret_row = (\<lambda>w p. if 0 < cursor p w \<and> cursor p w \<le> length rows
                        then Some (rows ! (cursor p w - 1)) else None)\<rparr>"

text \<open>
  An engine for a statement that gives its rows once only, as a DELETE with a RETURNING
  clause does when it is run again: the rows are counted over all the steps ever made,
  and a reset does not bring them back.
\<close>

definition steps_ever :: "sqlite3_stmt \<Rightarrow> world \<Rightarrow> nat" where
  "steps_ever p w = length (filter (\<lambda>c. c = Step p) w)"

definition one_shot :: "'r list \<Rightarrow> 'r option engine" where
  "one_shot rows =
     \<lparr>ret_int = (\<lambda>w c. case c of
          Step p \<Rightarrow> if steps_ever p w < length rows then SQLITE_ROW else SQLITE_DONE
        | _ \<Rightarrow> SQLITE_OK),
      ret_double = (\<lambda>w c. Finite 0),
      ret_text = (\<lambda>w c. None), ret_text16 = (\<lambda>w c. None), ret_stmt = (\<lambda>w c. nullptr),
      ret_row = (\<lambda>w p. if 0 < steps_ever p w \<and> steps_ever p w \<le> length rows
                        then Some (rows ! (steps_ever p w - 1)) else None)\<rparr>"

text \<open>
  An engine whose every step gives a row, as for a recursive query with no end.
\<close>

definition always_row :: "unit engine" where
  "always_row = scripted (\<lambda>w c. case c of Step p \<Rightarrow> SQLITE_ROW | _ \<Rightarrow> SQLITE_OK)"

section \<open>Transaction guards: one completion per guard\<close>


lemmas guard_calls = transaction_apply_def transaction_commit_def transaction_rollback_def
  transaction_dtor_def

lemmas scripted_answers = scripted_def SQLITE_OK_def SQLITE_ROW_def SQLITE_DONE_def


lemma run_ops_terminal:
  "\<not> needs_rollback t \<Longrightarrow> run_ops e ops t w = (map (\<lambda>_. (Inr (), [])) ops, t, w)"
  by (induction ops) (simp_all add: guard_calls split: guard_op.splits)





lemma lifetime_terminal:
  "\<not> needs_rollback t \<Longrightarrow>
     lifetime e ops t w = (map (\<lambda>_. (Inr (), [])) ops @ [(Inr (), [])], t, w)"
  by (simp add: lifetime_def run_ops_terminal transaction_dtor_def)







text \<open>A guard that has been constructed is active: BEGIN was the last call made for it.\<close>

lemma transaction_ctor_active:
  "transaction_ctor e db w = (Inr t, w') \<Longrightarrow>
     needs_rollback t \<and>
     w' = w @ [Prepare_v2 db ''COMMIT;'', Prepare_v2 db ''ROLLBACK;'',
               Exec db ''BEGIN TRANSACTION;'']"
  by (auto simp add: transaction_ctor_def connection_prepare_def statement_ctor_def
      sqlite3_prepare_v2_def connection_execute_def sqlite3_exec_def
      split: prod.splits sum.splits if_splits)




section \<open>Transaction guards: moves\<close>

lemma move_assign_distinct:
  "this \<noteq> src \<Longrightarrow>
     transaction_move_assign e this src s w =
       (s(this := s src, src := moved_from),
        statement_dtor e (rollback_stmt (s this)) (statement_dtor e (commit_stmt (s this)) w))"
  by (auto simp add: transaction_move_assign_def Let_def moved_from_def statement_dtor_def
      fun_eq_iff)

lemma move_assign_self:
  "transaction_move_assign e this this s w = (s(this := (s this)\<lparr>needs_rollback := False\<rparr>), w)"
  by (simp add: transaction_move_assign_def Let_def fun_eq_iff)

lemma move_assign_source_idle:
  "\<not> needs_rollback (fst (transaction_move_assign e this src s w) src)"
  by (cases "this = src") (simp_all add: move_assign_self move_assign_distinct moved_from_def)

lemma destroy_inert: "transaction_destroy e moved_from w = (Inr (), w)"
  by (simp add: transaction_destroy_def transaction_dtor_def statement_dtor_def moved_from_def)

text \<open>
  C10, as the code has it. A move construction gives the new guard what \<open>o\<close> was (its
  statements and its flag) and leaves \<open>o\<close> with null statements and a false flag. A
  move assignment between two different guards does the same to the target and the
  source, touches no other guard, and finalizes the statements the target held before
  (first the one for COMMIT, then the one for ROLLBACK) without executing either; the
  number of guards of the pair that still have a commit or rollback to do is then the
  number the source stood for before, so never two. A move assignment of a guard to
  itself keeps its statements, clears its flag and calls the engine not at all. In
  every case the guard moved from is left with a false flag: on it commit(), rollback()
  and the destructor body return normally and change nothing, and no life of calls on
  it makes an engine call; the destruction of a guard left by a move from it to another
  calls the engine not at all.
\<close>

theorem transaction_move_transfers:
  "transaction_move_ctor o' = (o', moved_from) \<and>
   (this \<noteq> src \<longrightarrow>
      transaction_move_assign e this src s w =
        (s(this := s src, src := moved_from),
         statement_dtor e (rollback_stmt (s this)) (statement_dtor e (commit_stmt (s this)) w)) \<and>
      active [fst (transaction_move_assign e this src s w) this,
              fst (transaction_move_assign e this src s w) src] = active [s src]) \<and>
   (this = src \<longrightarrow>
      transaction_move_assign e this src s w =
        (s(this := (s this)\<lparr>needs_rollback := False\<rparr>), w)) \<and>
   active [fst (transaction_move_ctor o'), snd (transaction_move_ctor o')] = active [o'] \<and>
   active [o'] \<le> 1 \<and>
   (m = snd (transaction_move_ctor o') \<or>
    m = fst (transaction_move_assign e this src s w) src \<longrightarrow>
      \<not> needs_rollback m \<and>
      transaction_commit e m w' = (Inr (), m, w') \<and>
      transaction_rollback e m w' = (Inr (), m, w') \<and>
      transaction_dtor e m w' = (Inr (), m, w') \<and>
      lifetime e ops m w' = (map (\<lambda>_. (Inr (), [])) ops @ [(Inr (), [])], m, w')) \<and>
   transaction_destroy e moved_from w' = (Inr (), w')"
proof -
  have ctor: "transaction_move_ctor o' = (o', moved_from)"
    by (simp add: transaction_move_ctor_def moved_from_def)
  have idle: "\<not> needs_rollback m"
    if "m = snd (transaction_move_ctor o') \<or>
        m = fst (transaction_move_assign e this src s w) src"
    using that by (auto simp add: ctor moved_from_def move_assign_source_idle)
  have inert: "\<not> needs_rollback m \<and>
      transaction_commit e m w' = (Inr (), m, w') \<and>
      transaction_rollback e m w' = (Inr (), m, w') \<and>
      transaction_dtor e m w' = (Inr (), m, w') \<and>
      lifetime e ops m w' = (map (\<lambda>_. (Inr (), [])) ops @ [(Inr (), [])], m, w')"
    if "m = snd (transaction_move_ctor o') \<or>
        m = fst (transaction_move_assign e this src s w) src"
    using idle [OF that] lifetime_terminal [of m e ops w'] by (simp add: guard_calls)
  have pair: "active [fst (transaction_move_assign e this src s w) this,
              fst (transaction_move_assign e this src s w) src] = active [s src]"
    if "this \<noteq> src"
    using that by (simp add: move_assign_distinct active_def moved_from_def)
  have ctor_pair:
    "active [fst (transaction_move_ctor o'), snd (transaction_move_ctor o')] = active [o']"
    by (simp add: ctor active_def moved_from_def)
  have one: "active [o'] \<le> 1"
    by (simp add: active_def)
  show ?thesis
    using ctor inert pair ctor_pair one
    by (intro conjI impI)
      (simp_all only: move_assign_distinct move_assign_self destroy_inert simp_thms)
qed

text \<open>
  The theorem at work: a move construction from an active guard; a move assignment from
  the active guard at address 1 to the active guard at address 0, whose statements 3
  and 4 are finalized; a move assignment of the guard at address 1 to itself; and a
  life of calls on what a move construction leaves.
\<close>

theorem transaction_move_transfers_witness:
  "transaction_move_ctor guard12 = (guard12, moved_from) \<and>
   fst (transaction_move_assign busy_commit 0 1
          ((\<lambda>a. moved_from)
             (0 := \<lparr>commit_stmt = 3, rollback_stmt = 4, needs_rollback = True\<rparr>, 1 := guard12))
          []) 0 = guard12 \<and>
   fst (transaction_move_assign busy_commit 0 1
          ((\<lambda>a. moved_from)
             (0 := \<lparr>commit_stmt = 3, rollback_stmt = 4, needs_rollback = True\<rparr>, 1 := guard12))
          []) 1 = moved_from \<and>
   snd (transaction_move_assign busy_commit 0 1
          ((\<lambda>a. moved_from)
             (0 := \<lparr>commit_stmt = 3, rollback_stmt = 4, needs_rollback = True\<rparr>, 1 := guard12))
          []) = [Finalize 3, Finalize 4] \<and>
   fst (transaction_move_assign busy_commit 1 1 ((\<lambda>a. moved_from)(1 := guard12)) []) 1 =
     guard12\<lparr>needs_rollback := False\<rparr> \<and>
   lifetime busy_commit [Commit, Rollback] moved_from [] =
     ([(Inr (), []), (Inr (), []), (Inr (), [])], moved_from, [])"
  using transaction_move_transfers
      [where o' = guard12 and e = busy_commit and this = 0 and src = 1
         and s = "(\<lambda>a. moved_from)
             (0 := \<lparr>commit_stmt = 3, rollback_stmt = 4, needs_rollback = True\<rparr>, 1 := guard12)"
         and w = "[]" and m = moved_from and w' = "[]" and ops = "[Commit, Rollback]"]
    transaction_move_transfers
      [where o' = guard12 and e = busy_commit and this = 1 and src = 1
         and s = "(\<lambda>a. moved_from)(1 := guard12)"
         and w = "[]" and m = moved_from and w' = "[]" and ops = "[Commit, Rollback]"]
  by (simp add: guard12_def moved_from_def statement_dtor_def sqlite3_finalize_def
      nullptr_def transaction_move_ctor_def)

text \<open>
  C10 as the spec states it, "rollback/commit responsibility transfers with the move",
  fails for the move assignment of a guard to itself (\<open>t = std::move(t)\<close>): the active
  guard at address 1 keeps its statements 1 and 2, its flag is cleared and the engine is
  not called, so no guard is left to commit or roll back the transaction that is still
  open, and the destruction of the guard only finalizes its statements.
\<close>

theorem transaction_self_move_counterexample:
  "active [((\<lambda>a. moved_from)(1 := guard12)) 1] = 1 \<and>
   transaction_move_assign busy_commit 1 1 ((\<lambda>a. moved_from)(1 := guard12)) [] =
     ((\<lambda>a. moved_from)(1 := guard12\<lparr>needs_rollback := False\<rparr>), []) \<and>
   active [fst (transaction_move_assign busy_commit 1 1 ((\<lambda>a. moved_from)(1 := guard12)) []) 1]
     = 0 \<and>
   transaction_destroy busy_commit
       (fst (transaction_move_assign busy_commit 1 1 ((\<lambda>a. moved_from)(1 := guard12)) []) 1) []
     = (Inr (), [Finalize 2, Finalize 1])"
  by (simp add: transaction_move_assign_def Let_def guard12_def moved_from_def active_def
      transaction_destroy_def transaction_dtor_def statement_dtor_def sqlite3_finalize_def
      nullptr_def fun_eq_iff)

section \<open>Executing a statement\<close>

lemma statement_execute_eq:
  "statement_execute e p w =
     (if ret_int e w (Step p) \<noteq> SQLITE_ROW \<and> ret_int e w (Step p) \<noteq> SQLITE_DONE
      then (Inl (Error (ret_int e w (Step p))), w @ [Step p])
      else (if ret_int e (w @ [Step p]) (Reset p) = SQLITE_OK then Inr ()
            else Inl (Error (ret_int e (w @ [Step p]) (Reset p))),
            w @ [Step p, Reset p]))"
  by (simp add: statement_execute_def statement_reset_def sqlite3_step_def sqlite3_reset_def)

lemma statement_execute_args_eq:
  "statement_execute_args sizeof e p args w =
     (case statement_bind sizeof e p args w of
        None \<Rightarrow> None
      | Some (Inl err, w') \<Rightarrow> Some (Inl err, w')
      | Some (Inr u, w') \<Rightarrow> Some (statement_execute e p w'))"
  by (simp add: statement_execute_args_def statement_execute_def
      split: option.splits prod.splits sum.splits)

text \<open>
  C2, as the code has it. A step result that is neither "row" nor "done" raises the
  failure that carries it, and the statement is not reset. After a step result "row" or
  "done" the statement is reset at once, and the call raises exactly when that reset
  reports a status that is not success, carrying the status of the reset. With
  arguments, \<open>execute\<close> binds first: a bind that raises ends the call before any step,
  otherwise the call goes on as \<open>execute()\<close> does.
\<close>

theorem statement_execute_raises:
  "(ret_int e w (Step p) \<noteq> SQLITE_ROW \<and> ret_int e w (Step p) \<noteq> SQLITE_DONE \<longrightarrow>
      statement_execute e p w = (Inl (Error (ret_int e w (Step p))), w @ [Step p])) \<and>
   (ret_int e w (Step p) = SQLITE_ROW \<or> ret_int e w (Step p) = SQLITE_DONE \<longrightarrow>
      statement_execute e p w =
        (if ret_int e (w @ [Step p]) (Reset p) = SQLITE_OK then Inr ()
         else Inl (Error (ret_int e (w @ [Step p]) (Reset p))),
         w @ [Step p, Reset p])) \<and>
   statement_execute_args sizeof e p args w =
     (case statement_bind sizeof e p args w of
        None \<Rightarrow> None
      | Some (Inl err, w') \<Rightarrow> Some (Inl err, w')
      | Some (Inr u, w') \<Rightarrow> Some (statement_execute e p w'))"
proof (intro conjI impI)
  assume "ret_int e w (Step p) \<noteq> SQLITE_ROW \<and> ret_int e w (Step p) \<noteq> SQLITE_DONE"
  then show "statement_execute e p w = (Inl (Error (ret_int e w (Step p))), w @ [Step p])"
    by (simp add: statement_execute_eq)
next
  assume "ret_int e w (Step p) = SQLITE_ROW \<or> ret_int e w (Step p) = SQLITE_DONE"
  then show "statement_execute e p w =
        (if ret_int e (w @ [Step p]) (Reset p) = SQLITE_OK then Inr ()
         else Inl (Error (ret_int e (w @ [Step p]) (Reset p))),
         w @ [Step p, Reset p])"
    by (auto simp add: statement_execute_eq)
next
  show "statement_execute_args sizeof e p args w =
     (case statement_bind sizeof e p args w of
        None \<Rightarrow> None
      | Some (Inl err, w') \<Rightarrow> Some (Inl err, w')
      | Some (Inr u, w') \<Rightarrow> Some (statement_execute e p w'))"
    by (rule statement_execute_args_eq)
qed

theorem statement_execute_raises_witness:
  "statement_execute one_parameter 1 [] = (Inr (), [Step 1, Reset 1]) \<and>
   statement_execute busy_commit 1 [] = (Inl (Error 5), [Step 1]) \<and>
   statement_execute_args lp64 one_parameter 1 [Value (Integer T_int 7)] [] =
     Some (Inr (), [Bind_int 1 1 7, Step 1, Reset 1])"
  using statement_execute_raises [of one_parameter "[]" 1 lp64 "[Value (Integer T_int 7)]"]
    statement_execute_raises [of busy_commit "[]" 1 lp64 "[]"]
    statement_execute_raises [of one_parameter "[Bind_int 1 1 7]" 1 lp64 "[]"]
  by (simp add: statement_execute_eq statement_execute_args_eq one_parameter_def
      busy_commit_def scripted_answers statement_bind_def bind_to_def bind_traits_bind_def
      do_integer_bind_def sqlite3_bind_int_def lp64_def wrap_signed_def)

text \<open>
  C2 as the spec states it, a failure "exactly when" the step result is neither "row"
  nor "done", fails in two ways: the reset after a step that gave a row can fail, and
  \<open>execute\<close> then raises though the step result was "row"; and with arguments a
  refused bind raises though no step was made at all.
\<close>

theorem statement_execute_counterexample:
  "ret_int returning_busy [] (Step 1) = SQLITE_ROW \<and>
   statement_execute returning_busy 1 [] = (Inl (Error 5), [Step 1, Reset 1]) \<and>
   statement_execute_args lp64 one_parameter 1
       [Value (Integer T_int 7), Value (Integer T_int 8)] [] =
     Some (Inl (Error 25), [Bind_int 1 1 7, Bind_int 1 2 8])"
  by (simp add: statement_execute_eq returning_busy_def scripted_answers
      statement_execute_args_def statement_bind_def one_parameter_def bind_to_def
      bind_traits_bind_def do_integer_bind_def sqlite3_bind_int_def lp64_def wrap_signed_def)

section \<open>Binding by name and by position\<close>

lemmas bind_calls = sqlite3_bind_int_def sqlite3_bind_int64_def sqlite3_bind_double_def
  sqlite3_bind_null_def sqlite3_bind_text_def sqlite3_bind_text16_def
  sqlite3_bind_parameter_index_def do_integer_bind_def

lemma bind_traits_bind_call:
  "bind_traits_bind sizeof e p i v w =
     (ret_int e w (bind_call sizeof p i v), w @ [bind_call sizeof p i v])"
  by (simp add: bind_traits_bind_def bind_call_def bind_calls mult.commute
      split: bind_value.splits)

lemma bind_to_call:
  "bind_to sizeof e p i v w =
     (if ret_int e w (bind_call sizeof p i v) \<noteq> SQLITE_OK
      then Inl (Error (ret_int e w (bind_call sizeof p i v))) else Inr (),
      w @ [bind_call sizeof p i v])"
  by (simp add: bind_to_def bind_traits_bind_call)

lemma bind_to_name_unresolved:
  "ret_int e w (Bind_parameter_index p name) = 0 \<Longrightarrow>
     bind_to_name sizeof e p name v w = (Inr (), w @ [Bind_parameter_index p name])"
  by (simp add: bind_to_name_def sqlite3_bind_parameter_index_def)

lemma bind_to_name_resolved:
  "ret_int e w (Bind_parameter_index p name) \<noteq> 0 \<Longrightarrow>
     bind_to_name sizeof e p name v w =
       bind_to sizeof e p (ret_int e w (Bind_parameter_index p name)) v
         (w @ [Bind_parameter_index p name])"
  by (simp add: bind_to_name_def sqlite3_bind_parameter_index_def)

lemma bind_impl_true_snoc:
  "bind_impl_true sizeof e p (ps @ [(name, v)]) w =
     (case bind_impl_true sizeof e p ps w of
        (Inl err, w') \<Rightarrow> (Inl err, w')
      | (Inr u, w') \<Rightarrow> bind_to_name sizeof e p name v w')"
proof (induction ps arbitrary: w)
  case Nil
  show ?case
    by (simp split: prod.splits sum.splits)
next
  case (Cons a ps)
  obtain name' v' where a: "a = (name', v')"
    by (cases a)
  show ?case
    by (simp add: a Cons.IH split: prod.splits sum.splits)
qed

lemma bind_parameters_snoc:
  "bind_parameters sizeof e p I (vs @ [v]) w =
     (case bind_parameters sizeof e p I vs w of
        (Inl err, w') \<Rightarrow> (Inl err, w')
      | (Inr u, w') \<Rightarrow> bind_to sizeof e p (int I + int (length vs) + 1) v w')"
proof (induction vs arbitrary: I w)
  case Nil
  show ?case
    by (simp add: add.commute split: prod.splits sum.splits)
next
  case (Cons a vs)
  have index: "int (I + 1) + int (length vs) + 1 = int I + int (length (a # vs)) + 1"
    by simp
  show ?case
    by (simp only: bind_parameters.simps append_Cons Cons.IH index split: prod.splits sum.splits)
      simp
qed

lemma bind_parameters_calls:
  "\<exists>k \<le> length vs.
     snd (bind_parameters sizeof e p I vs w) =
       w @ take k (map (\<lambda>(i, v). bind_call sizeof p (int (i + 1)) v) (enumerate I vs)) \<and>
     (fst (bind_parameters sizeof e p I vs w) = Inr () \<longrightarrow> k = length vs)"
proof (induction vs arbitrary: I w)
  case Nil
  show ?case by simp
next
  case (Cons v vs)
  let ?c = "bind_call sizeof p (int (I + 1)) v"
  show ?case
  proof (cases "ret_int e w ?c = SQLITE_OK")
    case False
    then have "bind_parameters sizeof e p I (v # vs) w =
        (Inl (Error (ret_int e w ?c)), w @ [?c])"
      by (simp add: bind_to_call)
    then show ?thesis
      by (intro exI [of _ 1]) simp
  next
    case True
    then have step: "bind_parameters sizeof e p I (v # vs) w =
        bind_parameters sizeof e p (I + 1) vs (w @ [?c])"
      by (simp add: bind_to_call)
    from Cons.IH [of "I + 1" "w @ [?c]"] obtain k where k: "k \<le> length vs"
      "snd (bind_parameters sizeof e p (I + 1) vs (w @ [?c])) =
         (w @ [?c]) @
           take k (map (\<lambda>(i, v). bind_call sizeof p (int (i + 1)) v) (enumerate (I + 1) vs))"
      "fst (bind_parameters sizeof e p (I + 1) vs (w @ [?c])) = Inr () \<longrightarrow> k = length vs"
      by blast
    show ?thesis
      unfolding step using k by (intro exI [of _ "Suc k"]) simp
  qed
qed

lemma bind_parameters_all:
  "bind_parameters sizeof e p 0 vs w = (Inr (), w') \<Longrightarrow>
     w' = w @ map (\<lambda>(i, v). bind_call sizeof p (int i + 1) v) (enumerate 0 vs)"
  using bind_parameters_calls [of vs sizeof e p 0 w] by (auto simp add: add.commute)

lemma meta_and_list_all: "meta_and bs = list_all id bs"
  by (induction bs rule: meta_and.induct) auto

lemma named_arguments:
  "meta_and (map is_named_parameter (map (\<lambda>(name, v). Named_parameter name v) ps)) \<and>
   [(name, v). Named_parameter name v \<leftarrow> map (\<lambda>(name, v). Named_parameter name v) ps] = ps"
  by (induction ps) (auto simp add: meta_and_list_all)

lemma plain_arguments:
  "vs \<noteq> [] \<Longrightarrow> \<not> meta_and (map is_named_parameter (map Value vs))"
  "\<not> list_ex is_named_parameter (map Value vs)"
  "[v. Value v \<leftarrow> map Value vs] = vs"
  by (induction vs) (auto simp add: meta_and_list_all)

lemma statement_bind_named:
  "statement_bind sizeof e p (map (\<lambda>(name, v). Named_parameter name v) ps) w =
     Some (bind_impl_true sizeof e p ps w)"
  using named_arguments [of ps] by (simp add: statement_bind_def del: map_map)

lemma statement_bind_plain:
  "statement_bind sizeof e p (map Value vs) w = Some (bind_parameters sizeof e p 0 vs w)"
proof (cases "vs = []")
  case True
  then show ?thesis
    by (simp add: statement_bind_def)
next
  case False
  then show ?thesis
    using plain_arguments [of vs] by (simp add: statement_bind_def del: map_map)
qed

text \<open>
  C3, as the code has it. Binding a value at an index makes the one engine call for a
  value of its kind and raises exactly when the engine refuses it, with the status it
  gave. Binding by name looks the name up: a name the lookup does not resolve (index 0)
  is skipped, the call returns normally and the lookup is the only engine call made; a
  name that resolves is bound at the index found. \<open>bind\<close> without arguments does
  nothing. \<open>bind\<close> with named parameters only, and \<open>bind\<close> with plain values only, go
  through the arguments in order: the call with one more argument at the end does what
  the call without it does, and then, when that has returned normally, binds the last
  argument by its name, or at its position counted from 1; when it has raised, the last
  argument is neither looked up nor bound. So a call with plain values that returns
  normally has made the binds of all its arguments, in order, at the indices 1, 2, ...,
  and no other engine call. A call that mixes the two kinds does not exist.
\<close>

theorem statement_bind_in_argument_order:
  "bind_to sizeof e p i v w =
     (if ret_int e w (bind_call sizeof p i v) \<noteq> SQLITE_OK
      then Inl (Error (ret_int e w (bind_call sizeof p i v))) else Inr (),
      w @ [bind_call sizeof p i v]) \<and>
   (ret_int e w (Bind_parameter_index p name) = 0 \<longrightarrow>
      bind_to_name sizeof e p name v w = (Inr (), w @ [Bind_parameter_index p name])) \<and>
   (ret_int e w (Bind_parameter_index p name) \<noteq> 0 \<longrightarrow>
      bind_to_name sizeof e p name v w =
        bind_to sizeof e p (ret_int e w (Bind_parameter_index p name)) v
          (w @ [Bind_parameter_index p name])) \<and>
   statement_bind sizeof e p [] w = Some (Inr (), w) \<and>
   statement_bind sizeof e p
       (map (\<lambda>(name, v). Named_parameter name v) (ps @ [(name, v)])) w =
     (case statement_bind sizeof e p (map (\<lambda>(name, v). Named_parameter name v) ps) w of
        None \<Rightarrow> None
      | Some (Inl err, w') \<Rightarrow> Some (Inl err, w')
      | Some (Inr u, w') \<Rightarrow> Some (bind_to_name sizeof e p name v w')) \<and>
   statement_bind sizeof e p (map Value (vs @ [v])) w =
     (case statement_bind sizeof e p (map Value vs) w of
        None \<Rightarrow> None
      | Some (Inl err, w') \<Rightarrow> Some (Inl err, w')
      | Some (Inr u, w') \<Rightarrow> Some (bind_to sizeof e p (int (length vs) + 1) v w')) \<and>
   (statement_bind sizeof e p (map Value vs) w = Some (Inr (), w') \<longrightarrow>
      w' = w @ map (\<lambda>(i, v). bind_call sizeof p (int i + 1) v) (enumerate 0 vs)) \<and>
   (list_ex is_named_parameter args \<and> \<not> list_all is_named_parameter args \<longrightarrow>
      statement_bind sizeof e p args w = None)"
proof (intro conjI impI)
  show "bind_to sizeof e p i v w =
     (if ret_int e w (bind_call sizeof p i v) \<noteq> SQLITE_OK
      then Inl (Error (ret_int e w (bind_call sizeof p i v))) else Inr (),
      w @ [bind_call sizeof p i v])"
    by (rule bind_to_call)
next
  assume "ret_int e w (Bind_parameter_index p name) = 0"
  then show "bind_to_name sizeof e p name v w = (Inr (), w @ [Bind_parameter_index p name])"
    by (rule bind_to_name_unresolved)
next
  assume "ret_int e w (Bind_parameter_index p name) \<noteq> 0"
  then show "bind_to_name sizeof e p name v w =
        bind_to sizeof e p (ret_int e w (Bind_parameter_index p name)) v
          (w @ [Bind_parameter_index p name])"
    by (rule bind_to_name_resolved)
next
  show "statement_bind sizeof e p [] w = Some (Inr (), w)"
    by (simp add: statement_bind_def)
next
  show "statement_bind sizeof e p
       (map (\<lambda>(name, v). Named_parameter name v) (ps @ [(name, v)])) w =
     (case statement_bind sizeof e p (map (\<lambda>(name, v). Named_parameter name v) ps) w of
        None \<Rightarrow> None
      | Some (Inl err, w') \<Rightarrow> Some (Inl err, w')
      | Some (Inr u, w') \<Rightarrow> Some (bind_to_name sizeof e p name v w'))"
    unfolding statement_bind_named bind_impl_true_snoc
    by (simp split: prod.splits sum.splits)
next
  show "statement_bind sizeof e p (map Value (vs @ [v])) w =
     (case statement_bind sizeof e p (map Value vs) w of
        None \<Rightarrow> None
      | Some (Inl err, w') \<Rightarrow> Some (Inl err, w')
      | Some (Inr u, w') \<Rightarrow> Some (bind_to sizeof e p (int (length vs) + 1) v w'))"
    unfolding statement_bind_plain bind_parameters_snoc
    by (simp split: prod.splits sum.splits)
next
  assume "statement_bind sizeof e p (map Value vs) w = Some (Inr (), w')"
  then have "bind_parameters sizeof e p 0 vs w = (Inr (), w')"
    by (simp add: statement_bind_plain)
  then show "w' = w @ map (\<lambda>(i, v). bind_call sizeof p (int i + 1) v) (enumerate 0 vs)"
    by (rule bind_parameters_all)
next
  assume "list_ex is_named_parameter args \<and> \<not> list_all is_named_parameter args"
  then show "statement_bind sizeof e p args w = None"
    by (simp add: statement_bind_def meta_and_list_all list.pred_map comp_def)
qed

text \<open>
  The theorem at work, on the statement with the one parameter \<open>:a\<close>: the name \<open>:b\<close>
  is looked up and skipped; of two named parameters the first is bound at index 1 and
  the second, unresolved, binds nothing; a string is bound at index 1 with its length
  in bytes; and of two plain values the second is refused, at index 2.
\<close>

theorem statement_bind_in_argument_order_witness:
  "bind_to_name lp64 one_parameter 1 '':b'' Nullptr [] =
     (Inr (), [Bind_parameter_index 1 '':b'']) \<and>
   bind_to_name lp64 one_parameter 1 '':a'' Nullptr [] =
     (Inr (), [Bind_parameter_index 1 '':a'', Bind_null 1 1]) \<and>
   statement_bind lp64 one_parameter 1
       [Named_parameter '':a'' (Integer T_int 7), Named_parameter '':b'' Nullptr] [] =
     Some (Inr (), [Bind_parameter_index 1 '':a'', Bind_int 1 1 7,
                    Bind_parameter_index 1 '':b'']) \<and>
   statement_bind lp64 one_parameter 1 [Value (String ''x'')] [] =
     Some (Inr (), [Bind_text 1 1 ''x'' 1 SQLITE_TRANSIENT]) \<and>
   statement_bind lp64 one_parameter 1 [Value (Integer T_int 7), Value Nullptr] [] =
     Some (Inl (Error 25), [Bind_int 1 1 7, Bind_null 1 2])"
  using statement_bind_in_argument_order
      [where e = one_parameter and w = "[]" and p = 1 and name = "'':b''" and sizeof = lp64
         and v = Nullptr and i = 1 and ps = "[('':a'', Integer T_int 7)]"
         and vs = "[Integer T_int 7]" and w' = "[Bind_int 1 1 7]"
         and args = "[Named_parameter '':a'' Nullptr, Value Nullptr]"]
    statement_bind_in_argument_order
      [where e = one_parameter and w = "[]" and p = 1 and name = "'':a''" and sizeof = lp64
         and v = Nullptr and i = 1 and ps = "[]"
         and vs = "[]" and w' = "[]" and args = "[Named_parameter '':a'' Nullptr, Value Nullptr]"]
    statement_bind_in_argument_order
      [where e = one_parameter and w = "[]" and p = 1 and name = "'':a''" and sizeof = lp64
         and v = "String ''x''" and i = 1 and ps = "[]"
         and vs = "[]" and w' = "[]" and args = "[Named_parameter '':a'' Nullptr, Value Nullptr]"]
  by (simp add: one_parameter_def scripted_answers statement_bind_def bind_to_name_def
      bind_to_def bind_traits_bind_def bind_calls bind_call_def lp64_def wrap_signed_def)

text \<open>
  C3 as the spec states it, "every argument is bound" and "each name is resolved",
  fails when the engine refuses a bind, since \<open>bind_to\<close> then throws and the arguments
  after it are left alone. Of three plain values for the statement with one parameter
  the second is refused with SQLITE_RANGE (25) and the third is never bound; of two
  named parameters for a statement that has been stepped and not reset the first is
  refused with SQLITE_MISUSE (21) and the second is never looked up.
\<close>

theorem statement_bind_stops_counterexample:
  "statement_bind lp64 one_parameter 1
       [Value (Integer T_int 7), Value (Integer T_int 8), Value (Integer T_int 9)] [] =
     Some (Inl (Error 25), [Bind_int 1 1 7, Bind_int 1 2 8]) \<and>
   statement_bind lp64 in_use 1
       [Named_parameter '':a'' (Integer T_int 7), Named_parameter '':b'' (Integer T_int 8)]
       [Step 1] =
     Some (Inl (Error 21), [Step 1, Bind_parameter_index 1 '':a'', Bind_int 1 1 7])"
  by (simp add: statement_bind_def one_parameter_def in_use_def scripted_answers
      bind_to_name_def bind_to_def bind_traits_bind_def bind_calls lp64_def wrap_signed_def
      cursor_def)

section \<open>Direct execution on a connection\<close>

text \<open>
  C6. \<open>connection::execute\<close> makes the one call \<open>sqlite3_exec\<close>; it raises exactly
  when the status is not success or the engine left a message, and the failure carries
  the status and the message (which is null when only the status was bad); otherwise it
  returns, and it returns nothing.
\<close>

theorem connection_execute_raises:
  "connection_execute e db query w =
     (if ret_int e w (Exec db query) \<noteq> SQLITE_OK \<or> ret_text e w (Exec db query) \<noteq> None
      then Inl (Execute_error (ret_int e w (Exec db query)) (ret_text e w (Exec db query)))
      else Inr (),
      w @ [Exec db query])"
  by (simp add: connection_execute_def sqlite3_exec_def valid_def)

theorem connection_execute_raises_witness:
  "connection_execute chatty_exec 1 ''SELECT 1'' [] =
     (Inl (Execute_error SQLITE_OK (Some ''not an error'')), [Exec 1 ''SELECT 1'']) \<and>
   connection_execute one_parameter 1 ''SELECT 1'' [] = (Inr (), [Exec 1 ''SELECT 1''])"
  using connection_execute_raises [of chatty_exec 1 "''SELECT 1''" "[]"]
    connection_execute_raises [of one_parameter 1 "''SELECT 1''" "[]"]
  by (simp add: chatty_exec_def one_parameter_def scripted_def SQLITE_OK_def)

section \<open>Integer width dispatch\<close>

text \<open>
  C7. For each of the five integer types, whatever the sizes of the platform: when
  \<open>sizeof(T)\<close> is less than 8, binding calls \<open>sqlite3_bind_int\<close> and extraction calls
  \<open>sqlite3_column_int\<close>; when it is 8, they call \<open>sqlite3_bind_int64\<close> and
  \<open>sqlite3_column_int64\<close>. Each makes that one engine call.
\<close>

theorem integer_width_dispatch:
  "(sizeof T < 8 \<longrightarrow>
      bind_traits_bind sizeof e p i (Integer T v) w =
        (ret_int e w (Bind_int p i (wrap_signed 32 v)), w @ [Bind_int p i (wrap_signed 32 v)]) \<and>
      column_traits_integer_convert sizeof e p i T w =
        (to_integer sizeof T (ret_int e w (Column_int p i)), w @ [Column_int p i])) \<and>
   (sizeof T = 8 \<longrightarrow>
      bind_traits_bind sizeof e p i (Integer T v) w =
        (ret_int e w (Bind_int64 p i (wrap_signed 64 v)),
         w @ [Bind_int64 p i (wrap_signed 64 v)]) \<and>
      column_traits_integer_convert sizeof e p i T w =
        (to_integer sizeof T (ret_int e w (Column_int64 p i)), w @ [Column_int64 p i]))"
  by (simp add: bind_traits_bind_def do_integer_bind_def sqlite3_bind_int_def
      sqlite3_bind_int64_def column_traits_integer_convert_def do_integer_convert_def
      sqlite3_column_int_def sqlite3_column_int64_def)

theorem integer_width_dispatch_witness:
  "snd (bind_traits_bind lp64 two_bytes 1 1 (Integer T_short 7) []) = [Bind_int 1 1 7] \<and>
   column_traits_integer_convert lp64 two_bytes 1 0 T_short [] = (2, [Column_int 1 0]) \<and>
   snd (bind_traits_bind lp64 two_bytes 1 1 (Integer T_long 7) []) = [Bind_int64 1 1 7] \<and>
   column_traits_integer_convert lp64 two_bytes 1 0 T_long [] = (2, [Column_int64 1 0])"
  using integer_width_dispatch [of lp64 T_short two_bytes 1 1 7 "[]"]
    integer_width_dispatch [of lp64 T_short two_bytes 1 0 7 "[]"]
    integer_width_dispatch [of lp64 T_long two_bytes 1 1 7 "[]"]
    integer_width_dispatch [of lp64 T_long two_bytes 1 0 7 "[]"]
  by (simp add: lp64_def two_bytes_def scripted_def to_integer_def wrap_signed_def)

section \<open>Owned strings of length zero\<close>

text \<open>
  C8. When the engine reports 0 bytes for a column, the conversion to an owned string,
  narrow or wide, returns the empty string after that one call: the text pointer, which
  may be null, is not asked for and not read. In every case, the text pointer is asked
  for only when the byte count was not 0.
\<close>

theorem owned_string_zero_length:
  "(ret_int e w (Column_bytes p i) = 0 \<longrightarrow>
      column_traits_string_convert e p i w = (Inr [], w @ [Column_bytes p i])) \<and>
   (ret_int e w (Column_bytes16 p i) = 0 \<longrightarrow>
      column_traits_u16string_convert e p i w = (Inr [], w @ [Column_bytes16 p i])) \<and>
   (Column_text p i \<in> set (drop (length w) (snd (column_traits_string_convert e p i w))) \<longrightarrow>
      ret_int e w (Column_bytes p i) \<noteq> 0) \<and>
   (Column_text16 p i \<in> set (drop (length w) (snd (column_traits_u16string_convert e p i w))) \<longrightarrow>
      ret_int e w (Column_bytes16 p i) \<noteq> 0)"
  by (simp add: column_traits_string_convert_def column_traits_u16string_convert_def
      sqlite3_column_bytes_def sqlite3_column_bytes16_def sqlite3_column_text_def
      sqlite3_column_text16_def)

theorem owned_string_zero_length_witness:
  "column_traits_string_convert empty_text 1 0 [] = (Inr [], [Column_bytes 1 0]) \<and>
   column_traits_u16string_convert empty_text 1 0 [] = (Inr [], [Column_bytes16 1 0]) \<and>
   column_traits_string_convert two_bytes 1 0 [] = (Inr ''hi'', [Column_bytes 1 0, Column_text 1 0]) \<and>
   column_traits_u16string_convert two_bytes 1 0 [] =
     (Inr [104], [Column_bytes16 1 0, Column_text16 1 0])"
  using owned_string_zero_length [of empty_text "[]" 1 0]
    owned_string_zero_length [of two_bytes "[]" 1 0]
  by (simp add: empty_text_def two_bytes_def scripted_def column_traits_string_convert_def
      column_traits_u16string_convert_def sqlite3_column_bytes_def sqlite3_column_bytes16_def
      sqlite3_column_text_def sqlite3_column_text16_def insert_chars_def truncated_div_def)

section \<open>Iterating over the rows\<close>

lemmas iterator_defs = advance_def sqlite3_step_def iterator_neq_def iterator_eq_def
  statement_range_end_def statement_iterator_end_def

lemma for_loop_end:
  "for_loop e \<lparr>current_column = p, ret = SQLITE_DONE\<rparr> (statement_range_end p) rows w =
     Some (Inr (), rows, w)"
  by (subst for_loop.simps) (simp add: iterator_defs)

lemma for_loop_row:
  "for_loop e \<lparr>current_column = p, ret = SQLITE_ROW\<rparr> (statement_range_end p) rows w =
     (if ret_int e w (Step p) = SQLITE_ROW
      then for_loop e \<lparr>current_column = p, ret = SQLITE_ROW\<rparr> (statement_range_end p)
             (rows @ [ret_row e w p]) (w @ [Step p])
      else Some (if ret_int e w (Step p) = SQLITE_DONE then Inr ()
                 else Inl (Error (ret_int e w (Step p))),
                 rows @ [ret_row e w p], w @ [Step p]))"
  using for_loop_end [of e p "rows @ [ret_row e w p]" "w @ [Step p]"]
  by (subst for_loop.simps) (simp add: iterator_defs SQLITE_ROW_def SQLITE_DONE_def)

lemma replicate_shift: "(w @ [x]) @ replicate j x = w @ replicate (Suc j) x"
  by (simp add: replicate_append_same)

text \<open>The loop, entered on a row, runs up to the first step that does not give a row.\<close>

lemma for_loop_run:
  "\<forall>j<k. ret_int e (w @ replicate j (Step p)) (Step p) = SQLITE_ROW \<Longrightarrow>
   ret_int e (w @ replicate k (Step p)) (Step p) \<noteq> SQLITE_ROW \<Longrightarrow>
   for_loop e \<lparr>current_column = p, ret = SQLITE_ROW\<rparr> (statement_range_end p) rows w =
     Some (if ret_int e (w @ replicate k (Step p)) (Step p) = SQLITE_DONE then Inr ()
           else Inl (Error (ret_int e (w @ replicate k (Step p)) (Step p))),
           rows @ map (\<lambda>j. ret_row e (w @ replicate j (Step p)) p) [0..<Suc k],
           w @ replicate (Suc k) (Step p))"
proof (induction k arbitrary: w rows)
  case 0
  then have "ret_int e w (Step p) \<noteq> SQLITE_ROW"
    by simp
  then show ?case
    by (simp add: for_loop_row)
next
  case (Suc k)
  have first: "ret_int e w (Step p) = SQLITE_ROW"
    using Suc.prems(1) [rule_format, of 0] by simp
  have rest: "\<forall>j<k. ret_int e ((w @ [Step p]) @ replicate j (Step p)) (Step p) = SQLITE_ROW"
    using Suc.prems(1) by (auto simp: replicate_shift simp del: replicate_Suc append_assoc)
  have stop: "ret_int e ((w @ [Step p]) @ replicate k (Step p)) (Step p) \<noteq> SQLITE_ROW"
    using Suc.prems(2) by (simp add: replicate_shift del: replicate_Suc append_assoc)
  have unroll:
    "for_loop e \<lparr>current_column = p, ret = SQLITE_ROW\<rparr> (statement_range_end p) rows w =
       for_loop e \<lparr>current_column = p, ret = SQLITE_ROW\<rparr> (statement_range_end p)
         (rows @ [ret_row e w p]) (w @ [Step p])"
    by (simp add: for_loop_row first)
  have maps: "map (\<lambda>j. ret_row e (w @ replicate j (Step p)) p) [0..<Suc (Suc k)] =
      ret_row e w p # map (\<lambda>j. ret_row e ((w @ [Step p]) @ replicate j (Step p)) p) [0..<Suc k]"
    by (simp add: upt_rec [of 0] map_Suc_upt [symmetric] del: upt_Suc)
  show ?case
    unfolding unroll Suc.IH [OF rest stop] maps
    by simp
qed

lemma statement_range_begin_eq:
  "statement_range_begin e p w =
     (if ret_int e w (Reset p) \<noteq> SQLITE_OK
      then (Inl (Error (ret_int e w (Reset p))), w @ [Reset p])
      else if step_answer e p w 0 \<noteq> SQLITE_ROW \<and> step_answer e p w 0 \<noteq> SQLITE_DONE
      then (Inl (Error (step_answer e p w 0)), w @ [Reset p, Step p])
      else (Inr \<lparr>current_column = p, ret = step_answer e p w 0\<rparr>, w @ [Reset p, Step p]))"
  by (simp add: statement_range_begin_def statement_range_reset_def sqlite3_reset_def
      statement_iterator_ctor_def advance_def sqlite3_step_def step_answer_def
      SQLITE_OK_def SQLITE_DONE_def)

lemma for_each_reset_fails:
  "ret_int e w (Reset p) \<noteq> SQLITE_OK \<Longrightarrow>
     for_each e p w = Some (Inl (Error (ret_int e w (Reset p))), [], w @ [Reset p])"
  by (simp add: for_each_def statement_range_begin_eq)

lemma for_each_stops:
  assumes reset: "ret_int e w (Reset p) = SQLITE_OK"
    and rows: "\<forall>j<k. step_answer e p w j = SQLITE_ROW"
    and stop: "step_answer e p w k \<noteq> SQLITE_ROW"
  shows "for_each e p w =
     Some (if step_answer e p w k = SQLITE_DONE then Inr ()
           else Inl (Error (step_answer e p w k)),
           map (row_shown e p w) [0..<k],
           w @ Reset p # replicate (Suc k) (Step p))"
proof (cases k)
  case 0
  with stop show ?thesis
    by (simp add: for_each_def statement_range_begin_eq reset for_loop_end)
next
  case (Suc k')
  let ?w1 = "w @ [Reset p, Step p]"
  have first: "step_answer e p w 0 = SQLITE_ROW"
    using rows Suc by simp
  have shift: "\<And>j. ?w1 @ replicate j (Step p) = w @ Reset p # replicate (Suc j) (Step p)"
    by simp
  have r: "\<forall>j<k'. ret_int e (?w1 @ replicate j (Step p)) (Step p) = SQLITE_ROW"
    using rows Suc unfolding shift by (auto simp: step_answer_def)
  have s: "ret_int e (?w1 @ replicate k' (Step p)) (Step p) \<noteq> SQLITE_ROW"
    using stop Suc unfolding shift by (simp add: step_answer_def)
  have "for_each e p w =
      for_loop e \<lparr>current_column = p, ret = SQLITE_ROW\<rparr> (statement_range_end p) [] ?w1"
    by (simp add: for_each_def statement_range_begin_eq reset first SQLITE_ROW_def
        SQLITE_DONE_def)
  also note for_loop_run [OF r s, of "[]"]
  finally show ?thesis
    unfolding shift by (simp add: Suc step_answer_def row_shown_def)
qed

text \<open>A loop that is only ever given rows has no result.\<close>

lemma for_loop_never:
  assumes run: "for_loop e it s rows w = Some y"
  shows "\<not> (it = \<lparr>current_column = p, ret = SQLITE_ROW\<rparr> \<and> s = statement_range_end p \<and>
            (\<forall>j. ret_int e (w @ replicate j (Step p)) (Step p) = SQLITE_ROW))"
proof -
  let ?P = "\<lambda>(e :: 'r engine) it s (rows :: 'r list) w (y :: (error + unit) \<times> 'r list \<times> world).
    \<not> (it = \<lparr>current_column = p, ret = SQLITE_ROW\<rparr> \<and> s = statement_range_end p \<and>
            (\<forall>j. ret_int e (w @ replicate j (Step p)) (Step p) = SQLITE_ROW))"
  have step: "?P e it s rows w y"
    if hyp: "\<And>e it s rows w y. loop e it s rows w = Some y \<Longrightarrow> ?P e it s rows w y"
    and body: "(if iterator_neq it s then
        (let rows' = rows @ [ret_row e w (current_column it)]
         in case advance e it w of
              (Inl err, it', w') \<Rightarrow> Some (Inl err, rows', w')
            | (Inr u, it', w') \<Rightarrow> loop e it' s rows' w')
      else Some (Inr (), rows, w)) = Some y"
    for loop and e :: "'r engine" and it s and rows :: "'r list" and w y
  proof
    assume inv: "it = \<lparr>current_column = p, ret = SQLITE_ROW\<rparr> \<and> s = statement_range_end p \<and>
      (\<forall>j. ret_int e (w @ replicate j (Step p)) (Step p) = SQLITE_ROW)"
    then have "ret_int e (w @ replicate 0 (Step p)) (Step p) = SQLITE_ROW"
      by blast
    then have first: "ret_int e w (Step p) = SQLITE_ROW"
      by simp
    have next_inv: "\<forall>j. ret_int e ((w @ [Step p]) @ replicate j (Step p)) (Step p) = SQLITE_ROW"
    proof
      fix j
      from inv have "ret_int e (w @ replicate (Suc j) (Step p)) (Step p) = SQLITE_ROW"
        by blast
      then show "ret_int e ((w @ [Step p]) @ replicate j (Step p)) (Step p) = SQLITE_ROW"
        by simp
    qed
    from body inv first
    have "loop e \<lparr>current_column = p, ret = SQLITE_ROW\<rparr> (statement_range_end p)
        (rows @ [ret_row e w p]) (w @ [Step p]) = Some y"
      by (simp add: iterator_defs SQLITE_ROW_def SQLITE_DONE_def)
    from hyp [OF this] next_inv show False
      by blast
  qed
  show ?thesis
    by (rule for_loop.raw_induct [where P = ?P, OF step run])
qed

lemma for_each_never:
  assumes reset: "ret_int e w (Reset p) = SQLITE_OK"
    and rows: "\<forall>j. step_answer e p w j = SQLITE_ROW"
  shows "for_each e p w = None"
proof (rule ccontr)
  assume "for_each e p w \<noteq> None"
  then obtain y where y: "for_each e p w = Some y"
    by blast
  have first: "step_answer e p w 0 = SQLITE_ROW"
    using rows by blast
  have "for_each e p w =
      for_loop e \<lparr>current_column = p, ret = SQLITE_ROW\<rparr> (statement_range_end p) []
        (w @ [Reset p, Step p])"
    by (simp add: for_each_def statement_range_begin_eq reset first SQLITE_ROW_def
        SQLITE_DONE_def)
  with y have run:
    "for_loop e \<lparr>current_column = p, ret = SQLITE_ROW\<rparr> (statement_range_end p) []
       (w @ [Reset p, Step p]) = Some y"
    by simp
  have "\<forall>j. ret_int e ((w @ [Reset p, Step p]) @ replicate j (Step p)) (Step p) = SQLITE_ROW"
  proof
    fix j
    from rows have "step_answer e p w (Suc j) = SQLITE_ROW"
      by blast
    then show "ret_int e ((w @ [Reset p, Step p]) @ replicate j (Step p)) (Step p) = SQLITE_ROW"
      by (simp add: step_answer_def)
  qed
  with for_loop_never [OF run, of p] show False
    by blast
qed

lemma for_each_Some:
  assumes "for_each e p w = Some y" and "ret_int e w (Reset p) = SQLITE_OK"
  shows "\<exists>k. (\<forall>j<k. step_answer e p w j = SQLITE_ROW) \<and> step_answer e p w k \<noteq> SQLITE_ROW"
proof -
  have "\<exists>j. step_answer e p w j \<noteq> SQLITE_ROW"
    using for_each_never [OF assms(2)] assms(1) by auto
  then show ?thesis
    by (subst (asm) exists_least_iff) auto
qed

subsection \<open>The table engine\<close>

lemma cursor_steps: "cursor p (w @ Reset p # replicate n (Step p)) = n"
proof -
  have "foldl (\<lambda>n c. if c = Reset p then 0 else if c = Step p then n + 1 else n) a
      (replicate n (Step p)) = a + n" for a
    by (induction n arbitrary: a) simp_all
  then show ?thesis
    by (simp add: cursor_def)
qed

lemma table_step_answer:
  "step_answer (table rows) p w j = (if j < length rows then SQLITE_ROW else SQLITE_DONE)"
  by (simp add: step_answer_def table_def cursor_steps)

lemma table_row_shown:
  "row_shown (table rows) p w j = (if j < length rows then Some (rows ! j) else None)"
  by (simp add: row_shown_def table_def cursor_steps del: replicate_Suc)

lemma table_restarts_alike: "restarts_alike (table rows) p w w'"
  by (simp add: restarts_alike_def table_step_answer table_row_shown) (simp add: table_def)

lemma always_row_step_answer: "step_answer always_row p w j = SQLITE_ROW"
  by (simp add: step_answer_def always_row_def scripted_def)

lemma steps_ever_steps:
  "steps_ever p (w @ Reset p # replicate n (Step p)) = steps_ever p w + n"
  by (simp add: steps_ever_def)

lemma one_shot_step_answer:
  "step_answer (one_shot rows) p w j =
     (if steps_ever p w + j < length rows then SQLITE_ROW else SQLITE_DONE)"
  by (simp add: step_answer_def one_shot_def steps_ever_steps)

lemma one_shot_row_shown:
  "row_shown (one_shot rows) p w j =
     (if steps_ever p w + j < length rows then Some (rows ! (steps_ever p w + j)) else None)"
  by (simp add: row_shown_def one_shot_def steps_ever_steps del: replicate_Suc)

subsection \<open>How an iteration ends\<close>

text \<open>
  C5, as the code has it. When the reset that \<open>begin()\<close> makes fails, that failure is
  raised and no step is made. After a reset that succeeds, the iteration ends at
  the first step that does not give a row, say step \<open>k\<close>: it has yielded the \<open>k\<close> rows
  of the steps before, and it ends normally when that step gives "done" and raises the
  failure that carries the status of that step otherwise, at once: the step is the last
  engine call made. When every step gives a row, the iteration has no end. So the
  sequence is finite exactly when the engine at some step gives something other than a
  row.
\<close>

theorem fetch_ends_at_first_other_answer:
  "(ret_int e w (Reset p) \<noteq> SQLITE_OK \<longrightarrow>
      for_each e p w = Some (Inl (Error (ret_int e w (Reset p))), [], w @ [Reset p])) \<and>
   (ret_int e w (Reset p) = SQLITE_OK \<longrightarrow>
     ((\<forall>j<k. step_answer e p w j = SQLITE_ROW) \<and> step_answer e p w k \<noteq> SQLITE_ROW \<longrightarrow>
        for_each e p w =
          Some (if step_answer e p w k = SQLITE_DONE then Inr ()
                else Inl (Error (step_answer e p w k)),
                map (row_shown e p w) [0..<k],
                w @ Reset p # replicate (Suc k) (Step p))) \<and>
     ((\<forall>j. step_answer e p w j = SQLITE_ROW) \<longrightarrow> for_each e p w = None) \<and>
     (for_each e p w \<noteq> None) = (\<exists>j. step_answer e p w j \<noteq> SQLITE_ROW))"
proof (intro conjI impI)
  assume "ret_int e w (Reset p) \<noteq> SQLITE_OK"
  then show "for_each e p w = Some (Inl (Error (ret_int e w (Reset p))), [], w @ [Reset p])"
    by (rule for_each_reset_fails)
next
  assume r: "ret_int e w (Reset p) = SQLITE_OK"
    and h: "(\<forall>j<k. step_answer e p w j = SQLITE_ROW) \<and> step_answer e p w k \<noteq> SQLITE_ROW"
  from h have a: "\<forall>j<k. step_answer e p w j = SQLITE_ROW"
    and b: "step_answer e p w k \<noteq> SQLITE_ROW"
    by blast+
  show "for_each e p w =
          Some (if step_answer e p w k = SQLITE_DONE then Inr ()
                else Inl (Error (step_answer e p w k)),
                map (row_shown e p w) [0..<k],
                w @ Reset p # replicate (Suc k) (Step p))"
    by (rule for_each_stops [OF r a b])
next
  assume "ret_int e w (Reset p) = SQLITE_OK" and "\<forall>j. step_answer e p w j = SQLITE_ROW"
  then show "for_each e p w = None"
    by (rule for_each_never)
next
  assume r: "ret_int e w (Reset p) = SQLITE_OK"
  show "(for_each e p w \<noteq> None) = (\<exists>j. step_answer e p w j \<noteq> SQLITE_ROW)"
  proof
    assume n: "for_each e p w \<noteq> None"
    show "\<exists>j. step_answer e p w j \<noteq> SQLITE_ROW"
    proof (rule ccontr)
      assume "\<not> (\<exists>j. step_answer e p w j \<noteq> SQLITE_ROW)"
      then have "\<forall>j. step_answer e p w j = SQLITE_ROW"
        by simp
      from for_each_never [OF r this] n show False
        by simp
    qed
  next
    assume "\<exists>j. step_answer e p w j \<noteq> SQLITE_ROW"
    then obtain k' where "step_answer e p w k' \<noteq> SQLITE_ROW"
      and "\<forall>j<k'. step_answer e p w j = SQLITE_ROW"
      by (subst (asm) exists_least_iff) auto
    from for_each_stops [OF r this(2) this(1)] show "for_each e p w \<noteq> None"
      by simp
  qed
qed

theorem fetch_ends_at_first_other_answer_witness:
  "for_each (table [''a'', ''b'']) 1 [] =
     Some (Inr (), [Some ''a'', Some ''b''], [Reset 1, Step 1, Step 1, Step 1])"
proof -
  have r: "ret_int (table [''a'', ''b'']) [] (Reset 1) = SQLITE_OK"
    by (simp add: table_def)
  have s: "(\<forall>j<2. step_answer (table [''a'', ''b'']) 1 [] j = SQLITE_ROW) \<and>
      step_answer (table [''a'', ''b'']) 1 [] 2 \<noteq> SQLITE_ROW"
    by (simp add: table_step_answer SQLITE_ROW_def SQLITE_DONE_def)
  from fetch_ends_at_first_other_answer [of "table [''a'', ''b'']" "[]" 1 2] r s
  have "for_each (table [''a'', ''b'']) 1 [] =
      Some (if step_answer (table [''a'', ''b'']) 1 [] 2 = SQLITE_DONE then Inr ()
            else Inl (Error (step_answer (table [''a'', ''b'']) 1 [] 2)),
            map (row_shown (table [''a'', ''b'']) 1 []) [0..<2],
            [] @ Reset 1 # replicate (Suc 2) (Step 1))"
    by blast
  then show ?thesis
    by (simp add: table_step_answer table_row_shown upt_rec eval_nat_numeral)
qed

text \<open>
  C5 as the spec states it, "the sequence is finite", fails for an engine whose steps
  give a row every time: the iteration over it never ends.
\<close>

theorem fetch_endless_counterexample:
  "for_each always_row 1 [] = None"
  by (rule for_each_never) (simp_all add: always_row_step_answer, simp add: always_row_def scripted_def)

subsection \<open>Fetching twice\<close>

lemma begin_resets_first:
  "\<exists>cs. snd (statement_range_begin e p w) = w @ Reset p # cs \<and> (cs = [] \<or> cs = [Step p])"
  by (simp add: statement_range_begin_eq)

lemma fetch_twice:
  assumes run: "for_each e p w = Some (r, rows, w')" and alike: "restarts_alike e p w w'"
  shows "for_each e p w' = Some (r, rows, w' @ drop (length w) w') \<and>
     (\<exists>n. drop (length w) w' = Reset p # replicate n (Step p))"
proof (cases "ret_int e w (Reset p) = SQLITE_OK")
  case False
  with alike have "ret_int e w' (Reset p) \<noteq> SQLITE_OK"
      "ret_int e w' (Reset p) = ret_int e w (Reset p)"
    by (simp_all add: restarts_alike_def)
  with run False show ?thesis
    by (auto simp add: for_each_reset_fails intro: exI [of _ 0])
next
  case True
  from for_each_Some [OF run True] obtain k where
    k: "\<forall>j<k. step_answer e p w j = SQLITE_ROW" "step_answer e p w k \<noteq> SQLITE_ROW"
    by blast
  from alike have same: "\<And>j. step_answer e p w' j = step_answer e p w j"
      "\<And>j. row_shown e p w' j = row_shown e p w j"
      "ret_int e w' (Reset p) = SQLITE_OK"
    using True by (simp_all add: restarts_alike_def)
  have rows_same: "map (row_shown e p w') [0..<k] = map (row_shown e p w) [0..<k]"
    by (simp add: same)
  from for_each_stops [OF True k] run
  have first: "r = (if step_answer e p w k = SQLITE_DONE then Inr ()
           else Inl (Error (step_answer e p w k)))"
      "rows = map (row_shown e p w) [0..<k]"
      "w' = w @ Reset p # replicate (Suc k) (Step p)"
    by simp_all
  have "for_each e p w' =
     Some (r, rows, w' @ Reset p # replicate (Suc k) (Step p))"
    using for_each_stops [of e w' p k] k
    unfolding same rows_same first [symmetric] by (simp add: same)
  moreover have "drop (length w) w' = Reset p # replicate (Suc k) (Step p)"
    by (subst first(3)) simp
  ultimately show ?thesis
    by (intro conjI exI [of _ "Suc k"]) simp_all
qed

text \<open>
  C4, as the code has it. \<open>begin()\<close> calls the engine's reset first, before the one
  step it may make, so each fresh iteration re-issues a reset before the first step.
  That is all the wrapper does for a restart; which rows follow is the engine's answer.
  Let a first consumption of the range end (normally or with a failure), and let the
  engine after it answer the reset as it did before it, and after that reset answer the
  steps and show the rows as it did after the first reset. Then a second consumption
  yields the same rows and ends the same way, and it makes the same engine calls as the
  first: the reset first, then steps only.
\<close>

theorem fetch_twice_same_rows:
  "(\<exists>cs. snd (statement_range_begin e p w) = w @ Reset p # cs \<and> (cs = [] \<or> cs = [Step p])) \<and>
   (for_each e p w = Some (r, rows, w') \<and> restarts_alike e p w w' \<longrightarrow>
      for_each e p w' = Some (r, rows, w' @ drop (length w) w') \<and>
      (\<exists>n. drop (length w) w' = Reset p # replicate n (Step p)))"
  using begin_resets_first [of e p w] fetch_twice [of e p w r rows w'] by blast

theorem fetch_twice_same_rows_witness:
  "snd (statement_range_begin (table [''a'', ''b'']) 1 []) = [Reset 1, Step 1] \<and>
   for_each (table [''a'', ''b'']) 1 [Reset 1, Step 1, Step 1, Step 1] =
     Some (Inr (), [Some ''a'', Some ''b''],
           [Reset 1, Step 1, Step 1, Step 1, Reset 1, Step 1, Step 1, Step 1])"
proof -
  have first: "for_each (table [''a'', ''b'']) 1 [] =
      Some (Inr (), [Some ''a'', Some ''b''], [Reset 1, Step 1, Step 1, Step 1])"
  proof -
    have r: "ret_int (table [''a'', ''b'']) [] (Reset 1) = SQLITE_OK"
      by (simp add: table_def)
    have a: "\<forall>j<2. step_answer (table [''a'', ''b'']) 1 [] j = SQLITE_ROW"
      and b: "step_answer (table [''a'', ''b'']) 1 [] 2 \<noteq> SQLITE_ROW"
      by (simp_all add: table_step_answer SQLITE_ROW_def SQLITE_DONE_def)
    from for_each_stops [OF r a b] show ?thesis
      by (simp add: table_step_answer table_row_shown upt_rec eval_nat_numeral)
  qed
  have start: "snd (statement_range_begin (table [''a'', ''b'']) 1 []) = [Reset 1, Step 1]"
    by (simp add: statement_range_begin_eq table_def table_step_answer SQLITE_OK_def
        SQLITE_ROW_def SQLITE_DONE_def)
  from fetch_twice_same_rows
      [of "table [''a'', ''b'']" 1 "[]" "Inr ()" "[Some ''a'', Some ''b'']"
        "[Reset 1, Step 1, Step 1, Step 1]"]
    first table_restarts_alike [of "[''a'', ''b'']" 1 "[]" "[Reset 1, Step 1, Step 1, Step 1]"]
  have "for_each (table [''a'', ''b'']) 1 [Reset 1, Step 1, Step 1, Step 1] =
     Some (Inr (), [Some ''a'', Some ''b''],
           [Reset 1, Step 1, Step 1, Step 1] @
             drop (length ([] :: world)) [Reset 1, Step 1, Step 1, Step 1])"
    by blast
  with start show ?thesis
    by simp
qed

text \<open>
  C4 as the spec states it, the same rows both times "for every statement", fails for a
  statement whose rows the engine gives once only: the first consumption yields the
  rows \<open>a\<close> and \<open>b\<close>, and the second, which resets the statement first as every
  iteration does, yields no row.
\<close>

theorem fetch_twice_counterexample:
  "for_each (one_shot [''a'', ''b'']) 1 [] =
     Some (Inr (), [Some ''a'', Some ''b''], [Reset 1, Step 1, Step 1, Step 1]) \<and>
   for_each (one_shot [''a'', ''b'']) 1 [Reset 1, Step 1, Step 1, Step 1] =
     Some (Inr (), [], [Reset 1, Step 1, Step 1, Step 1, Reset 1, Step 1])"
proof -
  have r: "ret_int (one_shot [''a'', ''b'']) w (Reset 1) = SQLITE_OK" for w
    by (simp add: one_shot_def)
  have a: "\<forall>j<2. step_answer (one_shot [''a'', ''b'']) 1 [] j = SQLITE_ROW"
    and b: "step_answer (one_shot [''a'', ''b'']) 1 [] 2 \<noteq> SQLITE_ROW"
    by (simp_all add: one_shot_step_answer steps_ever_def SQLITE_ROW_def SQLITE_DONE_def)
  have c: "\<forall>j<0. step_answer (one_shot [''a'', ''b'']) 1 [Reset 1, Step 1, Step 1, Step 1] j
      = SQLITE_ROW"
    and d: "step_answer (one_shot [''a'', ''b'']) 1 [Reset 1, Step 1, Step 1, Step 1] 0
      \<noteq> SQLITE_ROW"
    by (simp_all add: one_shot_step_answer steps_ever_def SQLITE_ROW_def SQLITE_DONE_def)
  from for_each_stops [OF r a b] for_each_stops [OF r c d] show ?thesis
    by (simp add: one_shot_step_answer one_shot_row_shown steps_ever_def upt_rec
        eval_nat_numeral)
qed

section \<open>Scalar values through bind and extraction\<close>

lemma wrap_signed_id:
  assumes "0 < n" and "- (2 ^ (n - 1)) \<le> v" and "v < 2 ^ (n - 1)"
  shows "wrap_signed n v = v"
proof -
  from \<open>0 < n\<close> obtain m where n: "n = Suc m"
    by (cases n) simp_all
  have "0 \<le> v + 2 ^ m" and "v + 2 ^ m < 2 ^ Suc m"
    using assms n by simp_all
  then have "(v + 2 ^ m) mod 2 ^ Suc m = v + 2 ^ m"
    by (rule mod_pos_pos_trivial)
  then show ?thesis
    by (simp add: wrap_signed_def n)
qed

lemma narrower_range:
  assumes "0 < s" and "s \<le> (4 :: nat)" and "- (2 ^ (8 * s - 1)) \<le> v" and "v < 2 ^ (8 * s - 1)"
  shows "- (2 ^ 31) \<le> (v :: int) \<and> v < 2 ^ 31"
proof -
  have "(2 :: int) ^ (8 * s - 1) \<le> 2 ^ 31"
    using assms(1,2) by (intro power_increasing) simp_all
  with assms(3,4) show ?thesis
    by linarith
qed

lemma integer_round_trip:
  assumes size: "0 < sizeof T" "sizeof T \<le> 4 \<or> sizeof T = 8"
    and v: "representable sizeof T v"
  shows "to_integer sizeof T (if sizeof T < 8 then wrap_signed 32 v else wrap_signed 64 v) = v"
proof (cases "T = T_bool")
  case True
  with v have "v = 0 \<or> v = 1"
    by (simp add: representable_def)
  then show ?thesis
    using True by (auto simp add: to_integer_def wrap_signed_def)
next
  case False
  with v have bounds: "- (2 ^ (8 * sizeof T - 1)) \<le> v" "v < 2 ^ (8 * sizeof T - 1)"
    by (simp_all add: representable_def)
  have narrow: "wrap_signed (8 * sizeof T) v = v"
    using size(1) bounds by (intro wrap_signed_id) simp_all
  show ?thesis
  proof (cases "sizeof T < 8")
    case True
    with size have "sizeof T \<le> 4"
      by auto
    from narrower_range [OF size(1) this bounds] have "wrap_signed 32 v = v"
      by (intro wrap_signed_id) simp_all
    with narrow True False show ?thesis
      by (simp add: to_integer_def)
  next
    case False
    with size have "sizeof T = 8"
      by auto
    with bounds have "wrap_signed 64 v = v"
      by (intro wrap_signed_id) simp_all
    with narrow \<open>\<not> sizeof T < 8\<close> \<open>T \<noteq> T_bool\<close> show ?thesis
      by (simp add: to_integer_def)
  qed
qed


lemma integer_fits:
  assumes size: "0 < sizeof T" "sizeof T \<le> 4 \<or> sizeof T = 8"
    and v: "representable sizeof T v"
  shows "(if sizeof T < 8 then wrap_signed 32 v else wrap_signed 64 v) = v"
proof (cases "T = T_bool")
  case True
  with v have "v = 0 \<or> v = 1"
    by (simp add: representable_def)
  then show ?thesis
    by (auto simp add: wrap_signed_def)
next
  case False
  with v have bounds: "- (2 ^ (8 * sizeof T - 1)) \<le> v" "v < 2 ^ (8 * sizeof T - 1)"
    by (simp_all add: representable_def)
  show ?thesis
  proof (cases "sizeof T < 8")
    case True
    with size have "sizeof T \<le> 4"
      by auto
    from narrower_range [OF size(1) this bounds] have "wrap_signed 32 v = v"
      by (intro wrap_signed_id) simp_all
    with True show ?thesis
      by simp
  next
    case False
    with size have "sizeof T = 8"
      by auto
    with bounds have "wrap_signed 64 v = v"
      by (intro wrap_signed_id) simp_all
    with False show ?thesis
      by simp
  qed
qed

lemma round_trip_accepted:
  assumes "bind_value_of v = Some b" and "accepted e p w (bind_call sizeof p i b)"
  shows "round_trip sizeof to_float e p i c v w =
     Some (Inr (Some (fst (column_get sizeof to_float e p c (type_of v)
                             (w @ [bind_call sizeof p i b, Reset p, Step p])))),
           snd (column_get sizeof to_float e p c (type_of v)
                  (w @ [bind_call sizeof p i b, Reset p, Step p])))"
  using assms
  by (simp add: round_trip_def accepted_def bind_to_def bind_traits_bind_call
      statement_range_begin_def statement_range_reset_def sqlite3_reset_def
      statement_iterator_ctor_def advance_def sqlite3_step_def iterator_neq_def
      iterator_eq_def statement_range_end_def statement_iterator_end_def
      SQLITE_OK_def SQLITE_ROW_def SQLITE_DONE_def split: prod.splits)

lemma column_get_floating:
  "column_get sizeof to_float e p c (Floating F) w =
     (F_value F (case F of T_float \<Rightarrow> to_float (ret_double e w (Column_double p c))
                 | T_double \<Rightarrow> ret_double e w (Column_double p c)
                 | T_long_double \<Rightarrow> ret_double e w (Column_double p c)),
      w @ [Column_double p c])"
  by (simp add: column_get_def column_traits_floating_convert_def sqlite3_column_double_def)

lemma column_get_integral:
  "column_get sizeof to_float e p c (Integral T) w =
     (if sizeof T < 8
      then (I_value T (to_integer sizeof T (ret_int e w (Column_int p c))), w @ [Column_int p c])
      else (I_value T (to_integer sizeof T (ret_int e w (Column_int64 p c))),
            w @ [Column_int64 p c]))"
  by (simp add: column_get_def column_traits_integer_convert_def do_integer_convert_def
      sqlite3_column_int_def sqlite3_column_int64_def)

lemma round_trip_floating:
  assumes gives: "gives_back e p i c w" and x: "x \<noteq> NaN"
    and bound: "bind_value_of (F_value F x) = Some b"
    and float: "F = T_float \<longrightarrow> to_float x = x"
  shows "bind_call sizeof p i b = Bind_double p i x \<and>
     round_trip sizeof to_float e p i c (F_value F x) w =
       Some (Inr (Some (F_value F x)),
             w @ [Bind_double p i x, Reset p, Step p, Column_double p c])"
proof -
  from bound have call: "bind_call sizeof p i b = Bind_double p i x"
    by (cases F) (auto simp add: bind_call_def)
  from gives x have ok: "accepted e p w (Bind_double p i x)"
    and same: "ret_double e (w @ [Bind_double p i x, Reset p, Step p]) (Column_double p c) = x"
    by (simp_all add: gives_back_def)
  from ok have "accepted e p w (bind_call sizeof p i b)"
    by (simp only: call)
  from round_trip_accepted [OF bound this, of to_float c] float bound call show ?thesis
    by (cases F) (simp_all add: column_get_floating same)
qed

lemma round_trip_integral:
  assumes gives: "gives_back e p i c w"
    and size: "0 < sizeof T" "sizeof T \<le> 4 \<or> sizeof T = 8"
    and x: "representable sizeof T x"
  shows "round_trip sizeof to_float e p i c (I_value T x) w =
     Some (Inr (Some (I_value T x)),
           w @ [bind_call sizeof p i (Integer T x), Reset p, Step p,
                column_call sizeof p c (Integral T)])"
proof (cases "sizeof T < 8")
  case True
  with integer_fits [OF size x] have fits: "wrap_signed 32 x = x"
    by simp
  from integer_round_trip [OF size x] True fits have conv: "to_integer sizeof T x = x"
    by simp
  have call: "bind_call sizeof p i (Integer T x) = Bind_int p i x"
    using True fits by (simp add: bind_call_def)
  from gives fits have ok: "accepted e p w (Bind_int p i x)"
    and same: "ret_int e (w @ [Bind_int p i x, Reset p, Step p]) (Column_int p c) = x"
    by (simp_all add: gives_back_def)
  from ok have "accepted e p w (bind_call sizeof p i (Integer T x))"
    by (simp add: call)
  from round_trip_accepted [OF _ this, of "I_value T x" to_float c] call show ?thesis
    by (simp add: column_get_integral True same conv column_call_def)
next
  case False
  with integer_fits [OF size x] have fits: "wrap_signed 64 x = x"
    by simp
  from integer_round_trip [OF size x] False fits have conv: "to_integer sizeof T x = x"
    by simp
  have call: "bind_call sizeof p i (Integer T x) = Bind_int64 p i x"
    using False fits by (simp add: bind_call_def)
  from gives fits have ok: "accepted e p w (Bind_int64 p i x)"
    and same: "ret_int e (w @ [Bind_int64 p i x, Reset p, Step p]) (Column_int64 p c) = x"
    by (simp_all add: gives_back_def)
  from ok have "accepted e p w (bind_call sizeof p i (Integer T x))"
    by (simp add: call)
  from round_trip_accepted [OF _ this, of "I_value T x" to_float c] call show ?thesis
    by (simp add: column_get_integral False same conv column_call_def)
qed

lemma bound_int_last:
  "bound_int (w @ [Bind_int p i x, Reset p, Step p]) = x"
  "bound_int (w @ [Bind_int64 p i x, Reset p, Step p]) = x"
  by (simp_all add: bound_int_def)

lemma bound_double_last:
  "bound_double (w @ [Bind_double p i x, Reset p, Step p]) = (if x = NaN then Finite 0 else x)"
  by (simp add: bound_double_def)

lemma select_parameter_gives_back: "gives_back select_parameter p i c w"
  by (simp add: gives_back_def accepted_def select_parameter_def bound_int_last
      bound_double_last SQLITE_OK_def SQLITE_ROW_def)

lemma lp64_supported: "supported_widths lp64"
  by (simp add: supported_widths_def lp64_def split: integer_type.splits)

text \<open>
  C9, as the code has it. Take a round-trip statement, a platform whose integer types
  have a supported width, and a value that is not a NaN, of a scalar type for which
  there is a bind: \<open>float\<close>, \<open>double\<close> or an integer type. Binding the value and then
  reading the column of the first row as the same type gives the value again, and the
  engine calls made are the bind, the reset and the step of \<open>begin()\<close>, and the column
  call: the 32-bit calls for an integer type of less than 8 bytes, the 64-bit calls for
  one of 8 bytes, the calls for a double for \<open>float\<close> and \<open>double\<close>. The conversions
  the wrapper itself makes on the way in and on the way out lose nothing. For
  \<open>long double\<close> there is no bind, so no round trip.
\<close>

theorem scalar_round_trip:
  "(gives_back e p i c w \<and> supported_widths sizeof \<and> has_type sizeof to_float v \<and>
    \<not> is_nan v \<and> bind_value_of v = Some b \<longrightarrow>
      round_trip sizeof to_float e p i c v w =
        Some (Inr (Some v),
              w @ [bind_call sizeof p i b, Reset p, Step p,
                   column_call sizeof p c (type_of v)])) \<and>
   round_trip sizeof to_float e p i c (F_value T_long_double x) w = None"
proof (intro conjI impI)
  show "round_trip sizeof to_float e p i c (F_value T_long_double x) w = None"
    by (simp add: round_trip_def)
next
  assume h: "gives_back e p i c w \<and> supported_widths sizeof \<and> has_type sizeof to_float v \<and>
    \<not> is_nan v \<and> bind_value_of v = Some b"
  then have engine: "gives_back e p i c w"
    by simp
  show "round_trip sizeof to_float e p i c v w =
        Some (Inr (Some v),
              w @ [bind_call sizeof p i b, Reset p, Step p,
                   column_call sizeof p c (type_of v)])"
  proof (cases v)
    case (F_value F y)
    with h have number: "y \<noteq> NaN" and fits: "F = T_float \<longrightarrow> to_float y = y"
      and bound: "bind_value_of (F_value F y) = Some b"
      by (cases F; simp)+
    from round_trip_floating
        [where to_float = to_float and x = y and F = F and sizeof = sizeof and b = b,
          OF engine number bound fits]
      F_value show ?thesis
      by (simp add: column_call_def)
  next
    case (I_value T y)
    from h have "0 < sizeof T" and "sizeof T \<le> 4 \<or> sizeof T = 8"
      by (simp_all add: supported_widths_def)
    moreover from h I_value have "representable sizeof T y"
      by simp
    moreover from h I_value have "b = Integer T y"
      by simp
    ultimately show ?thesis
      using round_trip_integral [of e p i c w sizeof T y to_float] engine I_value
      by simp
  qed
qed

text \<open>
  The theorem at work on the statement \<open>SELECT ?\<close>, where \<open>long\<close> has 8 bytes: a
  \<open>long\<close> that needs more than 32 bits, a negative \<open>short\<close>, a \<open>double\<close>, and a
  \<open>float\<close> on a platform whose \<open>float\<close> is as wide as its \<open>double\<close>.
\<close>

theorem scalar_round_trip_witness:
  "round_trip lp64 (\<lambda>x. x) select_parameter 1 1 0 (I_value T_long 1099511627776) [] =
     Some (Inr (Some (I_value T_long 1099511627776)),
           [Bind_int64 1 1 1099511627776, Reset 1, Step 1, Column_int64 1 0]) \<and>
   round_trip lp64 (\<lambda>x. x) select_parameter 1 1 0 (I_value T_short (- 3)) [] =
     Some (Inr (Some (I_value T_short (- 3))),
           [Bind_int 1 1 (- 3), Reset 1, Step 1, Column_int 1 0]) \<and>
   round_trip lp64 (\<lambda>x. x) select_parameter 1 1 0 (F_value T_double (Finite (3 / 2))) [] =
     Some (Inr (Some (F_value T_double (Finite (3 / 2)))),
           [Bind_double 1 1 (Finite (3 / 2)), Reset 1, Step 1, Column_double 1 0]) \<and>
   round_trip lp64 (\<lambda>x. x) select_parameter 1 1 0 (F_value T_float (Infinity True)) [] =
     Some (Inr (Some (F_value T_float (Infinity True))),
           [Bind_double 1 1 (Infinity True), Reset 1, Step 1, Column_double 1 0])"
  using scalar_round_trip
      [of select_parameter 1 1 0 "[]" lp64 "\<lambda>x. x" "I_value T_long 1099511627776"
        "Integer T_long 1099511627776"]
    scalar_round_trip
      [of select_parameter 1 1 0 "[]" lp64 "\<lambda>x. x" "I_value T_short (- 3)"
        "Integer T_short (- 3)"]
    scalar_round_trip
      [of select_parameter 1 1 0 "[]" lp64 "\<lambda>x. x" "F_value T_double (Finite (3 / 2))"
        "Double (Finite (3 / 2))"]
    scalar_round_trip
      [of select_parameter 1 1 0 "[]" lp64 "\<lambda>x. x" "F_value T_float (Infinity True)"
        "Float (Infinity True)"]
    select_parameter_gives_back [of 1 1 0 "[]"] lp64_supported
  by (simp add: representable_def lp64_def bind_call_def column_call_def wrap_signed_def)

text \<open>
  C9 as the spec states it, for every value of a floating point type, fails for a NaN:
  the wrapper hands it to the engine as it is, the engine (as SQLite does) keeps it as
  NULL, and the column read as a \<open>double\<close> is 0.0, which is not the value bound.
\<close>

theorem nan_round_trip_counterexample:
  "round_trip lp64 (\<lambda>x. x) select_parameter 1 1 0 (F_value T_double NaN) [] =
     Some (Inr (Some (F_value T_double (Finite 0))),
           [Bind_double 1 1 NaN, Reset 1, Step 1, Column_double 1 0]) \<and>
   F_value T_double (Finite 0) \<noteq> F_value T_double NaN"
  by (simp add: round_trip_def bind_to_def bind_traits_bind_def sqlite3_bind_double_def
      statement_range_begin_def statement_range_reset_def sqlite3_reset_def
      statement_iterator_ctor_def advance_def sqlite3_step_def iterator_neq_def
      iterator_eq_def statement_range_end_def statement_iterator_end_def column_get_def
      column_traits_floating_convert_def sqlite3_column_double_def select_parameter_def
      bound_double_def SQLITE_OK_def SQLITE_ROW_def SQLITE_DONE_def)

end
